theory Spec2Isabelle
  imports Main "HOL-Library.Word"
begin

section \<open>POSIX threading wrappers: data model\<close>

text \<open>
  The library wraps pthread mutexes, condition variables, POSIX semaphores, read/write locks
  and threads in C++ classes that keep their own bookkeeping next to the native handle.
  Each method is embedded as a function of
  \<^item> the calling thread (\<open>pthread_self()\<close>), where the method asks for it,
  \<^item> the answers of the native calls the method makes (return value, \<open>errno\<close>), which are
    inputs of the model: the operating system is not part of the library; where a native
    call and \<open>errno\<close> are arguments of one call of \<open>sysexcept\<close>, \<open>errno\<close> is the value
    that argument has, read before or after the native call as the compiler orders it,
  \<^item> the bookkeeping fields of the object before the call.
  It returns what the method returns or throws, the fields after the call (a C++ exception
  keeps every assignment made before the \<open>throw\<close>), and the native calls it issued, in
  order, each with the fields as they stood when the call was issued. A call is followed
  on its own, without other threads in between, except in the condition, whose methods
  are about what the other threads do while the caller waits.

  The sources hold two copies of \<open>Mutex.cpp\<close> (\<open>src/unnamed/part_007\<close>, and the second
  half of \<open>src/Condition.cpp\<close>) and two of \<open>Semaphore.cpp\<close> (\<open>src/unnamed/part_008\<close>
  and \<open>src/Semaphore.cpp\<close>). Where the copies of a method differ, both are embedded, the
  second under the name of the first with \<open>_alt\<close> appended.
\<close>

type_synonym pthread_t = "64 word"
type_synonym uint = "32 word"
type_synonym size_t = "64 word"

text \<open>The messages of the exceptions, named after the macros of the sources where there
  is one, and after the text of the message otherwise.\<close>

datatype message =
    MUTEX_NOT_LOCKED | LOCKING_THREAD_MISSMATCH | DOUBLE_LOCK
  | DOUBLE_WAIT | POST_NOT_HELD | ZERO_MAX_VALUE
  | RW_LOCK_NOT_LOCKED
  | ALREADY_STARTED | DETACH_DETACHED | DETACH_STOPPED
  | JOIN_DETACHED | JOIN_NOT_STARTED
  | INVALID_TIMESPEC

text \<open>The exceptions by the class named in the \<open>throw\<close> statement: \<open>std::logic_error\<close>,
  \<open>std::invalid_argument\<close> and \<open>std::system_error\<close>; the last carries the name of the
  failed call and its error code.\<close>

datatype exception =
    Logic_error message
  | Invalid_argument message
  | System_error string int

record timespec =
  tv_sec :: int
  tv_nsec :: int

text \<open>\<open>struct timeval\<close>, as filled in by \<open>gettimeofday\<close>.\<close>

record timeval =
  tvl_sec :: int
  tv_usec :: int

text \<open>The native calls the methods issue, with the arguments that matter here.
  \<open>Sem_trywait\<close> is listed for comparison: POSIX offers it, no method issues it.\<close>

datatype native =
    Gettimeofday
  | Sem_init uint | Sem_wait | Sem_trywait | Sem_timedwait timespec | Sem_post
  | Pthread_mutex_lock | Pthread_mutex_trylock | Pthread_mutex_timedlock timespec
  | Pthread_mutex_unlock
  | Pthread_cond_wait | Pthread_cond_signal | Pthread_cond_broadcast
  | Pthread_rwlock_unlock
  | Pthread_attr_init | Pthread_attr_setdetachstate | Pthread_create | Pthread_detach pthread_t
  | Pthread_join pthread_t | Pthread_tryjoin_np pthread_t
  | Pthread_timedjoin_np pthread_t timespec

text \<open>
  The native calls that suspend the caller while the resource is not available. The
  header of the semaphore quotes the manual: "If the value of a semaphore is currently
  zero, then a sem_wait(3) operation will block until the value becomes greater than
  zero"; the headers of the mutex and of the thread say the same of \<open>lock\<close>,
  \<open>timedlock\<close> and \<open>timed_join\<close>. The \<open>try\<close> calls, the releases and the
  notifications return at once.
\<close>

fun suspends :: "native \<Rightarrow> bool" where
  "suspends Sem_wait = True"
| "suspends (Sem_timedwait _) = True"
| "suspends Pthread_mutex_lock = True"
| "suspends (Pthread_mutex_timedlock _) = True"
| "suspends Pthread_cond_wait = True"
| "suspends (Pthread_join _) = True"
| "suspends (Pthread_timedjoin_np _ _) = True"
| "suspends _ = False"

text \<open>A native call together with the fields of the object at the moment it is issued.\<close>

definition stamp :: "'s \<Rightarrow> native list \<Rightarrow> (native \<times> 's) list" where
  "stamp s calls = map (\<lambda>n. (n, s)) calls"

text \<open>Error numbers of \<open><cerrno>\<close> (Linux values).\<close>

definition EAGAIN :: int where "EAGAIN = 11"
definition EBUSY :: int where "EBUSY = 16"
definition EINVAL :: int where "EINVAL = 22"
definition ETIMEDOUT :: int where "ETIMEDOUT = 110"

definition NSEC_PER_SEC :: int where "NSEC_PER_SEC = 1000000000"
definition NSEC_PER_USEC :: int where "NSEC_PER_USEC = 1000"

text \<open>
  Modelled from the spec: the helper \<open>sysexcept(failed, call, code)\<close> of
  \<open>sysexcept.hpp\<close> is not among the sources. The spec has a failed native call surface as a
  \<open>SystemError\<close> that carries the name of the operation and the error code of the system,
  and the callers pass exactly these three arguments.
\<close>

definition sysexcept :: "bool \<Rightarrow> string \<Rightarrow> int \<Rightarrow> exception + unit" where
  "sysexcept failed call code = (if failed then Inl (System_error call code) else Inr ())"

section \<open>Deadline of the timed calls\<close>

text \<open>What \<open>gettimeofday\<close> answers: its return value, \<open>errno\<close>, and the time it
  stored.\<close>

record clock =
  gtod_ret :: int
  gtod_errno :: int
  current_time :: timeval

text \<open>The sum of the time span and the current time, with the carry of the nanoseconds
  (\<open>pthread_timeout.cpp\<close>, and the same lines in \<open>Thread::timed_join\<close>).\<close>

definition add_timeout :: "timespec \<Rightarrow> timeval \<Rightarrow> timespec" where
  "add_timeout ts now =
    (let timeout_time = \<lparr>tv_sec = tv_sec ts + tvl_sec now,
                          tv_nsec = tv_nsec ts + tv_usec now * NSEC_PER_USEC\<rparr>
     in if tv_nsec timeout_time \<ge> NSEC_PER_SEC
        then timeout_time\<lparr>tv_sec := tv_sec timeout_time + 1,
                          tv_nsec := tv_nsec timeout_time - NSEC_PER_SEC\<rparr>
        else timeout_time)"

text \<open>\<open>pthread_timeout\<close>: the result or the exception, and the native calls issued.\<close>

definition pthread_timeout :: "timespec \<Rightarrow> clock \<Rightarrow> (exception + timespec) \<times> native list" where
  "pthread_timeout ts clk =
    (if tv_sec ts < 0 \<or> tv_nsec ts < 0 \<or> tv_nsec ts \<ge> NSEC_PER_SEC
     then (Inl (Invalid_argument INVALID_TIMESPEC), [])
     else (case sysexcept (gtod_ret clk \<noteq> 0) ''gettimeofday'' (gtod_errno clk) of
             Inl e \<Rightarrow> (Inl e, [Gettimeofday])
           | Inr _ \<Rightarrow> (Inr (add_timeout ts (current_time clk)), [Gettimeofday])))"

section \<open>Mutex\<close>

record Mutex =
  lock_thread :: pthread_t
  locked :: bool

text \<open>The owner of the spec's data model: set exactly while \<open>locked\<close> holds.\<close>

definition owner :: "Mutex \<Rightarrow> pthread_t option" where
  "owner m = (if locked m then Some (lock_thread m) else None)"

text \<open>\<open>Mutex::lock\<close>; \<open>temp\<close> is the return value of \<open>pthread_mutex_lock\<close>.\<close>

definition Mutex_lock ::
  "pthread_t \<Rightarrow> int \<Rightarrow> Mutex \<Rightarrow> (exception + unit) \<times> Mutex \<times> (native \<times> Mutex) list" where
  "Mutex_lock self temp m =
    (if locked m \<and> lock_thread m = self then (Inl (Logic_error DOUBLE_LOCK), m, [])
     else (case sysexcept (temp \<noteq> 0) ''pthread_mutex_lock'' temp of
             Inl e \<Rightarrow> (Inl e, m, [(Pthread_mutex_lock, m)])
           | Inr _ \<Rightarrow> (Inr (), m\<lparr>lock_thread := self, locked := True\<rparr>,
                       [(Pthread_mutex_lock, m)])))"

text \<open>\<open>Mutex::unlock\<close> (the same text in both copies of \<open>Mutex.cpp\<close>); \<open>temp\<close> is the
  return value of \<open>pthread_mutex_unlock\<close>.\<close>

definition Mutex_unlock ::
  "pthread_t \<Rightarrow> int \<Rightarrow> Mutex \<Rightarrow> (exception + unit) \<times> Mutex \<times> (native \<times> Mutex) list" where
  "Mutex_unlock self temp m =
    (if \<not> locked m then (Inl (Logic_error MUTEX_NOT_LOCKED), m, [])
     else if self \<noteq> lock_thread m then (Inl (Logic_error LOCKING_THREAD_MISSMATCH), m, [])
     else
       let m1 = m\<lparr>locked := False\<rparr>;
           calls = [(Pthread_mutex_unlock, m1)]
       in if temp \<noteq> 0
          then (case sysexcept True ''pthread_mutex_unlock'' temp of
                  Inl e \<Rightarrow> (Inl e, m1\<lparr>locked := True\<rparr>, calls)
                | Inr _ \<Rightarrow> (Inr (), m1\<lparr>locked := True\<rparr>, calls))
          else (Inr (), m1, calls))"

text \<open>\<open>Mutex::trylock\<close>; \<open>temp\<close> is the return value of \<open>pthread_mutex_trylock\<close>.\<close>

definition Mutex_trylock ::
  "pthread_t \<Rightarrow> int \<Rightarrow> Mutex \<Rightarrow> (exception + bool) \<times> Mutex \<times> (native \<times> Mutex) list" where
  "Mutex_trylock self temp m =
    (if locked m \<and> lock_thread m = self then (Inl (Logic_error DOUBLE_LOCK), m, [])
     else
       let calls = [(Pthread_mutex_trylock, m)];
           early = (if temp \<noteq> 0
                    then (if temp = EBUSY then Some (Inr False)
                          else (case sysexcept True ''pthread_mutex_trylock'' temp of
                                  Inl e \<Rightarrow> Some (Inl e) | Inr _ \<Rightarrow> None))
                    else None)
       in (case early of
             Some r \<Rightarrow> (r, m, calls)
           | None \<Rightarrow> (Inr True, m\<lparr>lock_thread := self, locked := True\<rparr>, calls)))"

text \<open>The part of \<open>Mutex::timedlock\<close> after the entry check, the same in both copies:
  the deadline, the native call (\<open>temp\<close> its return value), the bookkeeping.\<close>

definition timedlock_body ::
  "pthread_t \<Rightarrow> timespec \<Rightarrow> clock \<Rightarrow> int \<Rightarrow> Mutex \<Rightarrow>
   (exception + bool) \<times> Mutex \<times> (native \<times> Mutex) list" where
  "timedlock_body self time clk temp m =
    (case pthread_timeout time clk of
       (Inl e, cs) \<Rightarrow> (Inl e, m, stamp m cs)
     | (Inr timeout_time, cs) \<Rightarrow>
         let calls = stamp m cs @ [(Pthread_mutex_timedlock timeout_time, m)];
             early = (if temp \<noteq> 0
                      then (if temp = ETIMEDOUT then Some (Inr False)
                            else (case sysexcept True ''pthread_mutex_timedlock'' temp of
                                    Inl e \<Rightarrow> Some (Inl e) | Inr _ \<Rightarrow> None))
                      else None)
         in (case early of
               Some r \<Rightarrow> (r, m, calls)
             | None \<Rightarrow> (Inr True, m\<lparr>lock_thread := self, locked := True\<rparr>, calls)))"

text \<open>\<open>Mutex::timedlock\<close> of \<open>src/unnamed/part_007\<close>: it starts with the check of
  \<open>lock\<close> and \<open>trylock\<close>.\<close>

definition Mutex_timedlock ::
  "pthread_t \<Rightarrow> timespec \<Rightarrow> clock \<Rightarrow> int \<Rightarrow> Mutex \<Rightarrow>
   (exception + bool) \<times> Mutex \<times> (native \<times> Mutex) list" where
  "Mutex_timedlock self time clk temp m =
    (if locked m \<and> lock_thread m = self then (Inl (Logic_error DOUBLE_LOCK), m, [])
     else timedlock_body self time clk temp m)"

text \<open>\<open>Mutex::timedlock\<close> of the copy of \<open>Mutex.cpp\<close> that follows \<open>Condition.cpp\<close> in
  \<open>src/Condition.cpp\<close> (lines 386 to 403): it starts with the deadline.\<close>

definition Mutex_timedlock_alt ::
  "pthread_t \<Rightarrow> timespec \<Rightarrow> clock \<Rightarrow> int \<Rightarrow> Mutex \<Rightarrow>
   (exception + bool) \<times> Mutex \<times> (native \<times> Mutex) list" where
  "Mutex_timedlock_alt self time clk temp m = timedlock_body self time clk temp m"

section \<open>Semaphore\<close>

record Semaphore =
  locking_threads :: "pthread_t \<rightharpoonup> bool"
  max_value :: uint
  current_value :: uint
  thread_queue :: uint

text \<open>\<open>operator[]\<close> of \<open>std::unordered_map\<close>: a key that is missing is inserted with
  the value \<open>false\<close>. The result is the value read and the map after the access.\<close>

definition subscript :: "(pthread_t \<rightharpoonup> bool) \<Rightarrow> pthread_t \<Rightarrow> bool \<times> (pthread_t \<rightharpoonup> bool)" where
  "subscript m k = (case m k of None \<Rightarrow> (False, m(k \<mapsto> False)) | Some b \<Rightarrow> (b, m))"

text \<open>The holder set of the spec: the threads whose entry is \<open>true\<close>.\<close>

definition holds :: "Semaphore \<Rightarrow> pthread_t \<Rightarrow> bool" where
  "holds s t = (locking_threads s t = Some True)"

text \<open>The fields after the look-up of the calling thread: an entry \<open>false\<close> may have
  been inserted, which tells nothing new about who holds the semaphore.\<close>

definition looked_up :: "pthread_t \<Rightarrow> Semaphore \<Rightarrow> Semaphore" where
  "looked_up thread s = s\<lparr>locking_threads := snd (subscript (locking_threads s) thread)\<rparr>"

text \<open>The constructor of \<open>src/unnamed/part_008\<close>. \<open>ret\<close> is the return value of
  \<open>sem_init\<close> and \<open>errno\<close> the value of the argument \<open>errno\<close> of \<open>sysexcept\<close>; the
  initialiser list does not mention \<open>current_value\<close>, whose content is whatever the
  memory holds (\<open>indeterminate\<close>).\<close>

definition Semaphore_ctor ::
  "uint \<Rightarrow> int \<Rightarrow> int \<Rightarrow> uint \<Rightarrow> (exception + Semaphore) \<times> native list" where
  "Semaphore_ctor val ret errno indeterminate =
    (if val = 0 then (Inl (Invalid_argument ZERO_MAX_VALUE), [])
     else (case sysexcept (ret \<noteq> 0) ''sem_init'' errno of
             Inl e \<Rightarrow> (Inl e, [Sem_init val])
           | Inr _ \<Rightarrow> (Inr \<lparr>locking_threads = Map.empty, max_value = val,
                             current_value = indeterminate, thread_queue = 0\<rparr>,
                       [Sem_init val])))"

text \<open>The constructor of \<open>src/Semaphore.cpp\<close>: the same, with \<open>std::logic_error\<close>.\<close>

definition Semaphore_ctor_alt ::
  "uint \<Rightarrow> int \<Rightarrow> int \<Rightarrow> uint \<Rightarrow> (exception + Semaphore) \<times> native list" where
  "Semaphore_ctor_alt val ret errno indeterminate =
    (if val = 0 then (Inl (Logic_error ZERO_MAX_VALUE), [])
     else (case sysexcept (ret \<noteq> 0) ''sem_init'' errno of
             Inl e \<Rightarrow> (Inl e, [Sem_init val])
           | Inr _ \<Rightarrow> (Inr \<lparr>locking_threads = Map.empty, max_value = val,
                             current_value = indeterminate, thread_queue = 0\<rparr>,
                       [Sem_init val])))"

text \<open>The bookkeeping of a successful acquisition, the last three statements of
  \<open>wait\<close>, \<open>trywait\<close> and \<open>timedwait\<close>.\<close>

definition acquired :: "pthread_t \<Rightarrow> Semaphore \<Rightarrow> Semaphore" where
  "acquired thread s =
    s\<lparr>current_value := current_value s + 1,
      thread_queue := thread_queue s - 1,
      locking_threads := (locking_threads s)(thread \<mapsto> True)\<rparr>"

text \<open>\<open>Semaphore::wait\<close> (the same text in both copies); \<open>ret\<close> and \<open>errno\<close> answer
  \<open>sem_wait\<close>.\<close>

definition Semaphore_wait ::
  "pthread_t \<Rightarrow> int \<Rightarrow> int \<Rightarrow> Semaphore \<Rightarrow>
   (exception + unit) \<times> Semaphore \<times> (native \<times> Semaphore) list" where
  "Semaphore_wait thread ret errno s =
    (case subscript (locking_threads s) thread of (held, lt) \<Rightarrow>
       let s0 = s\<lparr>locking_threads := lt\<rparr> in
       if held then (Inl (Logic_error DOUBLE_WAIT), s0, [])
       else
         let s1 = s0\<lparr>thread_queue := thread_queue s0 + 1\<rparr>;
             calls = [(Sem_wait, s1)]
         in (case sysexcept (ret \<noteq> 0) ''sem_wait'' errno of
               Inl e \<Rightarrow> (Inl e, s1, calls)
             | Inr _ \<Rightarrow> (Inr (), acquired thread s1, calls)))"

text \<open>\<open>Semaphore::trywait\<close> (the same text in both copies). The native call of the
  source is \<open>sem_wait\<close>, answered by \<open>temp\<close> and \<open>errno\<close>.\<close>

definition Semaphore_trywait ::
  "pthread_t \<Rightarrow> int \<Rightarrow> int \<Rightarrow> Semaphore \<Rightarrow>
   (exception + bool) \<times> Semaphore \<times> (native \<times> Semaphore) list" where
  "Semaphore_trywait thread temp errno s =
    (case subscript (locking_threads s) thread of (held, lt) \<Rightarrow>
       let s0 = s\<lparr>locking_threads := lt\<rparr> in
       if held then (Inl (Logic_error DOUBLE_WAIT), s0, [])
       else
         let s1 = s0\<lparr>thread_queue := thread_queue s0 + 1\<rparr>;
             calls = [(Sem_wait, s1)];
             early = (if temp \<noteq> 0
                      then (if errno = EAGAIN
                            then Some (Inr False, s1\<lparr>thread_queue := thread_queue s1 - 1\<rparr>)
                            else (case sysexcept True ''sem_wait'' errno of
                                    Inl e \<Rightarrow> Some (Inl e, s1) | Inr _ \<Rightarrow> None))
                      else None)
         in (case early of
               Some (r, s2) \<Rightarrow> (r, s2, calls)
             | None \<Rightarrow> (Inr True, acquired thread s1, calls)))"

text \<open>\<open>Semaphore::timedwait\<close> (the same text in both copies); \<open>temp\<close> and \<open>errno\<close>
  answer \<open>sem_timedwait\<close>.\<close>

definition Semaphore_timedwait ::
  "pthread_t \<Rightarrow> timespec \<Rightarrow> clock \<Rightarrow> int \<Rightarrow> int \<Rightarrow> Semaphore \<Rightarrow>
   (exception + bool) \<times> Semaphore \<times> (native \<times> Semaphore) list" where
  "Semaphore_timedwait thread time clk temp errno s =
    (case subscript (locking_threads s) thread of (held, lt) \<Rightarrow>
       let s0 = s\<lparr>locking_threads := lt\<rparr> in
       if held then (Inl (Logic_error DOUBLE_WAIT), s0, [])
       else
         (case pthread_timeout time clk of
            (Inl e, cs) \<Rightarrow> (Inl e, s0, stamp s0 cs)
          | (Inr timeout, cs) \<Rightarrow>
              let s1 = s0\<lparr>thread_queue := thread_queue s0 + 1\<rparr>;
                  calls = stamp s0 cs @ [(Sem_timedwait timeout, s1)];
                  early = (if temp \<noteq> 0
                           then (if errno = ETIMEDOUT
                                 then Some (Inr False, s1\<lparr>thread_queue := thread_queue s1 - 1\<rparr>)
                                 else (case sysexcept True ''sem_wait'' errno of
                                         Inl e \<Rightarrow> Some (Inl e, s1) | Inr _ \<Rightarrow> None))
                           else None)
              in (case early of
                    Some (r, s2) \<Rightarrow> (r, s2, calls)
                  | None \<Rightarrow> (Inr True, acquired thread s1, calls))))"

text \<open>\<open>Semaphore::post\<close> of \<open>src/unnamed/part_008\<close>; \<open>ret\<close> and \<open>errno\<close> answer
  \<open>sem_post\<close>.\<close>

definition Semaphore_post ::
  "pthread_t \<Rightarrow> int \<Rightarrow> int \<Rightarrow> Semaphore \<Rightarrow>
   (exception + unit) \<times> Semaphore \<times> (native \<times> Semaphore) list" where
  "Semaphore_post thread ret errno s =
    (case subscript (locking_threads s) thread of (held, lt) \<Rightarrow>
       let s0 = s\<lparr>locking_threads := lt\<rparr> in
       if \<not> held then (Inl (Logic_error POST_NOT_HELD), s0, [])
       else (case sysexcept (ret \<noteq> 0) ''sem_post'' errno of
               Inl e \<Rightarrow> (Inl e, s0, [(Sem_post, s0)])
             | Inr _ \<Rightarrow> (Inr (), s0\<lparr>current_value := current_value s0 - 1,
                                  locking_threads := (locking_threads s0)(thread \<mapsto> False)\<rparr>,
                         [(Sem_post, s0)])))"

text \<open>\<open>Semaphore::post\<close> of \<open>src/Semaphore.cpp\<close> (lines 145 to 157): the same, with
  \<open>current_value++\<close>.\<close>

definition Semaphore_post_alt ::
  "pthread_t \<Rightarrow> int \<Rightarrow> int \<Rightarrow> Semaphore \<Rightarrow>
   (exception + unit) \<times> Semaphore \<times> (native \<times> Semaphore) list" where
  "Semaphore_post_alt thread ret errno s =
    (case subscript (locking_threads s) thread of (held, lt) \<Rightarrow>
       let s0 = s\<lparr>locking_threads := lt\<rparr> in
       if \<not> held then (Inl (Logic_error POST_NOT_HELD), s0, [])
       else (case sysexcept (ret \<noteq> 0) ''sem_post'' errno of
               Inl e \<Rightarrow> (Inl e, s0, [(Sem_post, s0)])
             | Inr _ \<Rightarrow> (Inr (), s0\<lparr>current_value := current_value s0 + 1,
                                  locking_threads := (locking_threads s0)(thread \<mapsto> False)\<rparr>,
                         [(Sem_post, s0)])))"

text \<open>Calls on one semaphore, one after the other, each with the answers of its native
  calls: the fields after a call, and after a list of calls.\<close>

datatype sem_call =
    Wait pthread_t int int
  | Trywait pthread_t int int
  | Timedwait pthread_t timespec clock int int
  | Post pthread_t int int
  | Post_alt pthread_t int int

fun after_call :: "sem_call \<Rightarrow> Semaphore \<Rightarrow> Semaphore" where
  "after_call (Wait thread ret errno) s = fst (snd (Semaphore_wait thread ret errno s))"
| "after_call (Trywait thread temp errno) s = fst (snd (Semaphore_trywait thread temp errno s))"
| "after_call (Timedwait thread time clk temp errno) s =
     fst (snd (Semaphore_timedwait thread time clk temp errno s))"
| "after_call (Post thread ret errno) s = fst (snd (Semaphore_post thread ret errno s))"
| "after_call (Post_alt thread ret errno) s = fst (snd (Semaphore_post_alt thread ret errno s))"

fun after_calls :: "sem_call list \<Rightarrow> Semaphore \<Rightarrow> Semaphore" where
  "after_calls [] s = s"
| "after_calls (call # calls) s = after_calls calls (after_call call s)"

text \<open>Whether a call ends with the system error of its native acquisition (the three
  variants pass the name \<open>sem_wait\<close>), and how many calls of a list do.\<close>

fun acquire_failed :: "sem_call \<Rightarrow> Semaphore \<Rightarrow> bool" where
  "acquire_failed (Wait thread ret errno) s =
     (fst (Semaphore_wait thread ret errno s) = Inl (System_error ''sem_wait'' errno))"
| "acquire_failed (Trywait thread temp errno) s =
     (fst (Semaphore_trywait thread temp errno s) = Inl (System_error ''sem_wait'' errno))"
| "acquire_failed (Timedwait thread time clk temp errno) s =
     (fst (Semaphore_timedwait thread time clk temp errno s) =
        Inl (System_error ''sem_wait'' errno))"
| "acquire_failed (Post thread ret errno) s = False"
| "acquire_failed (Post_alt thread ret errno) s = False"

fun failed_acquisitions :: "sem_call list \<Rightarrow> Semaphore \<Rightarrow> nat" where
  "failed_acquisitions [] s = 0"
| "failed_acquisitions (call # calls) s =
     (if acquire_failed call s then 1 else 0) + failed_acquisitions calls (after_call call s)"

section \<open>Read/write lock\<close>

record RW_Lock =
  read_locked :: size_t
  write_locked :: bool

definition is_locked :: "RW_Lock \<Rightarrow> bool" where
  "is_locked l = (read_locked l \<noteq> 0 \<or> write_locked l)"

text \<open>\<open>RW_Lock::unlock\<close> (\<open>src/unnamed/part_006\<close>); \<open>temp\<close> is the return value of
  \<open>pthread_rwlock_unlock\<close>.\<close>

definition RW_Lock_unlock ::
  "int \<Rightarrow> RW_Lock \<Rightarrow> (exception + unit) \<times> RW_Lock \<times> (native \<times> RW_Lock) list" where
  "RW_Lock_unlock temp l =
    (if \<not> is_locked l then (Inl (Logic_error RW_LOCK_NOT_LOCKED), l, [])
     else
       let write_locked_temp = write_locked l;
           l1 = (if write_locked l then l\<lparr>write_locked := False\<rparr>
                 else l\<lparr>read_locked := read_locked l - 1\<rparr>);
           calls = [(Pthread_rwlock_unlock, l1)]
       in if temp \<noteq> 0
          then
            let l2 = (if write_locked_temp then l1\<lparr>write_locked := True\<rparr>
                      else l1\<lparr>read_locked := read_locked l1 + 1\<rparr>)
            in (case sysexcept True ''pthread_rwlock_unlock'' temp of
                  Inl e \<Rightarrow> (Inl e, l2, calls)
                | Inr _ \<Rightarrow> (Inr (), l2, calls))
          else (Inr (), l1, calls))"

section \<open>Condition\<close>

text \<open>
  The fields of a condition are read and written under its mutex only, and a waiting
  thread gives the mutex up inside \<open>pthread_cond_wait\<close>: what it finds when the call
  returns is what the other threads have written meanwhile. So the fields given to a
  method are the fields at the moment \<open>pthread_mutex_lock\<close> has returned, each return of
  \<open>pthread_cond_wait\<close> comes with the fields found then, and \<open>signal\<close> and \<open>broadcast\<close>
  are given what the other threads do to the fields between the release of the mutex and
  the \<open>return\<close> statement. \<open>wait\<close> lists its native calls with the fields at the
  moment of the call (for \<open>pthread_mutex_lock\<close>, the fields found when it returned):
  these are the fields the other threads see while the caller is suspended. \<open>signal\<close>
  and \<open>broadcast\<close> list them by name.
\<close>

record Condition =
  signal_created :: bool
  waiting_thread_count :: size_t
  wakeup_by_brodcast :: bool

text \<open>The loop of \<open>Condition::wait\<close>. The list holds the returns of
  \<open>pthread_cond_wait\<close> still to come: the return value and the fields found. When the
  list is used up and no signal is pending the thread stays suspended: \<open>None\<close>.\<close>

fun wait_loop ::
  "(int \<times> Condition) list \<Rightarrow> Condition \<Rightarrow> (native \<times> Condition) list \<Rightarrow>
   ((exception + unit) \<times> Condition \<times> (native \<times> Condition) list) option" where
  "wait_loop [] c calls = (if \<not> signal_created c then None else Some (Inr (), c, calls))"
| "wait_loop ((temp, c') # wakes) c calls =
    (if \<not> signal_created c
     then (case sysexcept (temp \<noteq> 0) ''pthread_cond_wait'' temp of
             Inl e \<Rightarrow> Some (Inl e, c', calls @ [(Pthread_cond_wait, c)])
           | Inr _ \<Rightarrow> wait_loop wakes c' (calls @ [(Pthread_cond_wait, c)]))
     else Some (Inr (), c, calls))"

text \<open>The statements of \<open>Condition::wait\<close> between the loop and the release of the mutex
  (lines 102 to 105).\<close>

definition leave_wait :: "Condition \<Rightarrow> Condition" where
  "leave_wait c =
    (let c1 = c\<lparr>waiting_thread_count := waiting_thread_count c - 1\<rparr>
     in if \<not> wakeup_by_brodcast c1 \<or> waiting_thread_count c1 = 0
        then c1\<lparr>signal_created := False\<rparr> else c1)"

text \<open>\<open>Condition::wait()\<close>; \<open>lock_ret\<close> and \<open>unlock_ret\<close> are the return values of
  \<open>pthread_mutex_lock\<close> and \<open>pthread_mutex_unlock\<close>.\<close>

definition Condition_wait ::
  "int \<Rightarrow> (int \<times> Condition) list \<Rightarrow> int \<Rightarrow> Condition \<Rightarrow>
   ((exception + bool) \<times> Condition \<times> (native \<times> Condition) list) option" where
  "Condition_wait lock_ret wakes unlock_ret c =
    (case sysexcept (lock_ret \<noteq> 0) ''pthread_mutex_lock'' lock_ret of
       Inl e \<Rightarrow> Some (Inl e, c, [(Pthread_mutex_lock, c)])
     | Inr _ \<Rightarrow>
        (case wait_loop wakes (c\<lparr>waiting_thread_count := waiting_thread_count c + 1\<rparr>)
                [(Pthread_mutex_lock, c)] of
           None \<Rightarrow> None
         | Some (Inl e, c2, calls) \<Rightarrow> Some (Inl e, c2, calls)
         | Some (Inr _, c2, calls) \<Rightarrow>
             (case sysexcept (unlock_ret \<noteq> 0) ''pthread_mutex_unlock'' unlock_ret of
                Inl e \<Rightarrow> Some (Inl e, leave_wait c2,
                                calls @ [(Pthread_mutex_unlock, leave_wait c2)])
              | Inr _ \<Rightarrow> Some (Inr True, leave_wait c2,
                                calls @ [(Pthread_mutex_unlock, leave_wait c2)]))))"

text \<open>The common text of \<open>Condition::signal\<close> and \<open>Condition::broadcast\<close>: they differ
  in the value given to \<open>wakeup_by_brodcast\<close> and in the native notification. \<open>lock_ret\<close>,
  \<open>temp\<close> and \<open>unlock_ret\<close> are the return values of the three native calls; \<open>others\<close>
  is what the other threads do to the fields once the mutex is released.\<close>

definition notify ::
  "bool \<Rightarrow> native \<Rightarrow> string \<Rightarrow> int \<Rightarrow> int \<Rightarrow> int \<Rightarrow> (Condition \<Rightarrow> Condition) \<Rightarrow> Condition \<Rightarrow>
   (exception + bool) \<times> Condition \<times> native list" where
  "notify by_broadcast call name lock_ret temp unlock_ret others c =
    (case sysexcept (lock_ret \<noteq> 0) ''pthread_mutex_lock'' lock_ret of
       Inl e \<Rightarrow> (Inl e, c, [Pthread_mutex_lock])
     | Inr _ \<Rightarrow>
        let c1 = c\<lparr>signal_created := (waiting_thread_count c \<noteq> 0)\<rparr>;
            c2 = c1\<lparr>wakeup_by_brodcast := by_broadcast\<rparr>;
            ret_val = signal_created c2
        in (case sysexcept (temp \<noteq> 0) name temp of
              Inl e \<Rightarrow> (Inl e, c2, [Pthread_mutex_lock, call])
            | Inr _ \<Rightarrow>
               (case sysexcept (unlock_ret \<noteq> 0) ''pthread_mutex_unlock'' unlock_ret of
                  Inl e \<Rightarrow> (Inl e, c2, [Pthread_mutex_lock, call, Pthread_mutex_unlock])
                | Inr _ \<Rightarrow> (Inr ret_val, others c2,
                            [Pthread_mutex_lock, call, Pthread_mutex_unlock]))))"

definition Condition_signal ::
  "int \<Rightarrow> int \<Rightarrow> int \<Rightarrow> (Condition \<Rightarrow> Condition) \<Rightarrow> Condition \<Rightarrow>
   (exception + bool) \<times> Condition \<times> native list" where
  "Condition_signal = notify False Pthread_cond_signal ''pthread_cond_signal''"

definition Condition_broadcast ::
  "int \<Rightarrow> int \<Rightarrow> int \<Rightarrow> (Condition \<Rightarrow> Condition) \<Rightarrow> Condition \<Rightarrow>
   (exception + bool) \<times> Condition \<times> native list" where
  "Condition_broadcast = notify True Pthread_cond_broadcast ''pthread_cond_broadcast''"

section \<open>Thread\<close>

datatype detachstate_t = JOINABLE | DETACHED

record Thread =
  thread_id :: pthread_t
  funcion :: "64 word"
  running :: bool
  detachstate :: detachstate_t
  arguments :: "64 word"

text \<open>\<open>Thread(function)\<close> and \<open>Thread(function, detachstate)\<close>; the arguments after
  these are the return values of the native calls.\<close>

definition Thread_ctor :: "64 word \<Rightarrow> int \<Rightarrow> exception + Thread" where
  "Thread_ctor function temp =
    (case sysexcept (temp \<noteq> 0) ''pthread_attr_init'' temp of
       Inl e \<Rightarrow> Inl e
     | Inr _ \<Rightarrow> Inr \<lparr>thread_id = 0, funcion = function, running = False,
                      detachstate = JOINABLE, arguments = 0\<rparr>)"

definition Thread_ctor_detachstate ::
  "64 word \<Rightarrow> detachstate_t \<Rightarrow> int \<Rightarrow> int \<Rightarrow> exception + Thread" where
  "Thread_ctor_detachstate function ds temp temp2 =
    (case sysexcept (temp \<noteq> 0) ''pthread_attr_init'' temp of
       Inl e \<Rightarrow> Inl e
     | Inr _ \<Rightarrow>
        (case sysexcept (temp2 \<noteq> 0) ''pthread_attr_setdetachstate'' temp2 of
           Inl e \<Rightarrow> Inl e
         | Inr _ \<Rightarrow> Inr \<lparr>thread_id = 0, funcion = function, running = False,
                          detachstate = ds, arguments = 0\<rparr>))"

text \<open>\<open>Thread::start\<close>; \<open>pthread_create\<close> returns \<open>temp\<close> and stores the identifier
  \<open>new_id\<close>.\<close>

definition Thread_start ::
  "int \<Rightarrow> pthread_t \<Rightarrow> Thread \<Rightarrow> (exception + unit) \<times> Thread \<times> (native \<times> Thread) list" where
  "Thread_start temp new_id t =
    (if running t then (Inl (Logic_error ALREADY_STARTED), t, [])
     else (case sysexcept (temp \<noteq> 0) ''pthread_create'' temp of
             Inl e \<Rightarrow> (Inl e, t, [(Pthread_create, t)])
           | Inr _ \<Rightarrow> (Inr (), t\<lparr>thread_id := new_id, running := True\<rparr>,
                       [(Pthread_create, t)])))"

definition Thread_detach ::
  "int \<Rightarrow> Thread \<Rightarrow> (exception + unit) \<times> Thread \<times> (native \<times> Thread) list" where
  "Thread_detach temp t =
    (if detachstate t = DETACHED then (Inl (Logic_error DETACH_DETACHED), t, [])
     else if \<not> running t then (Inl (Logic_error DETACH_STOPPED), t, [])
     else (case sysexcept (temp \<noteq> 0) ''pthread_detach'' temp of
             Inl e \<Rightarrow> (Inl e, t, [(Pthread_detach (thread_id t), t)])
           | Inr _ \<Rightarrow> (Inr (), t\<lparr>detachstate := DETACHED\<rparr>,
                       [(Pthread_detach (thread_id t), t)])))"

text \<open>The three joins take \<open>return_value\<close>, the address where the native join stores the
  value the thread function returned (\<open>None\<close> for \<open>nullptr\<close>), and give back what
  stands at that address afterwards: the native join stores \<open>exit_value\<close> there when
  it succeeds and the address is not null.\<close>

definition stored :: "'a option \<Rightarrow> 'b \<Rightarrow> 'b option" where
  "stored return_value exit_value = (case return_value of None \<Rightarrow> None | Some _ \<Rightarrow> Some exit_value)"

definition Thread_join ::
  "64 word option \<Rightarrow> int \<Rightarrow> 64 word \<Rightarrow> Thread \<Rightarrow>
   (exception + 64 word option) \<times> Thread \<times> (native \<times> Thread) list" where
  "Thread_join return_value temp exit_value t =
    (if detachstate t = DETACHED then (Inl (Logic_error JOIN_DETACHED), t, [])
     else if \<not> running t then (Inl (Logic_error JOIN_NOT_STARTED), t, [])
     else (case sysexcept (temp \<noteq> 0) ''pthread_join'' temp of
             Inl e \<Rightarrow> (Inl e, t, [(Pthread_join (thread_id t), t)])
           | Inr _ \<Rightarrow> (Inr (stored return_value exit_value), t\<lparr>running := False\<rparr>,
                       [(Pthread_join (thread_id t), t)])))"

definition Thread_try_join ::
  "64 word option \<Rightarrow> int \<Rightarrow> 64 word \<Rightarrow> Thread \<Rightarrow>
   (exception + bool \<times> 64 word option) \<times> Thread \<times> (native \<times> Thread) list" where
  "Thread_try_join return_value temp exit_value t =
    (if detachstate t = DETACHED then (Inl (Logic_error JOIN_DETACHED), t, [])
     else if \<not> running t then (Inl (Logic_error JOIN_NOT_STARTED), t, [])
     else
       let calls = [(Pthread_tryjoin_np (thread_id t), t)];
           early = (if temp \<noteq> 0
                    then (if temp = EBUSY then Some (Inr (False, None))
                          else (case sysexcept True ''pthread_tryjoin_np'' temp of
                                  Inl e \<Rightarrow> Some (Inl e) | Inr _ \<Rightarrow> None))
                    else None)
       in (case early of
             Some r \<Rightarrow> (r, t, calls)
           | None \<Rightarrow> (Inr (True, stored return_value exit_value), t\<lparr>running := False\<rparr>, calls)))"

definition Thread_timed_join ::
  "timespec \<Rightarrow> 64 word option \<Rightarrow> clock \<Rightarrow> int \<Rightarrow> 64 word \<Rightarrow> Thread \<Rightarrow>
   (exception + bool \<times> 64 word option) \<times> Thread \<times> (native \<times> Thread) list" where
  "Thread_timed_join time return_value clk temp exit_value t =
    (if detachstate t = DETACHED then (Inl (Logic_error JOIN_DETACHED), t, [])
     else if \<not> running t then (Inl (Logic_error JOIN_NOT_STARTED), t, [])
     else if tv_sec time < 0 \<or> tv_nsec time < 0 \<or> tv_nsec time \<ge> NSEC_PER_SEC
     then (Inl (Invalid_argument INVALID_TIMESPEC), t, [])
     else (case sysexcept (gtod_ret clk \<noteq> 0) ''gettimeofday'' (gtod_errno clk) of
             Inl e \<Rightarrow> (Inl e, t, [(Gettimeofday, t)])
           | Inr _ \<Rightarrow>
              let timeout_time = add_timeout time (current_time clk);
                  calls = [(Gettimeofday, t),
                           (Pthread_timedjoin_np (thread_id t) timeout_time, t)];
                  early = (if temp \<noteq> 0
                           then (if temp = ETIMEDOUT then Some (Inr (False, None))
                                 else (case sysexcept True ''pthread_tryjoin_np'' temp of
                                         Inl e \<Rightarrow> Some (Inl e) | Inr _ \<Rightarrow> None))
                           else None)
              in (case early of
                    Some r \<Rightarrow> (r, t, calls)
                  | None \<Rightarrow> (Inr (True, stored return_value exit_value),
                             t\<lparr>running := False\<rparr>, calls))))"

section \<open>Mutex: unlock\<close>

lemma Mutex_unlock_not_locked:
  "\<not> locked m \<Longrightarrow> Mutex_unlock self temp m = (Inl (Logic_error MUTEX_NOT_LOCKED), m, [])"
  by (simp add: Mutex_unlock_def)

lemma Mutex_unlock_other_thread:
  "locked m \<Longrightarrow> self \<noteq> lock_thread m \<Longrightarrow>
   Mutex_unlock self temp m = (Inl (Logic_error LOCKING_THREAD_MISSMATCH), m, [])"
  by (simp add: Mutex_unlock_def)

lemma Mutex_unlock_released:
  "locked m \<Longrightarrow> self = lock_thread m \<Longrightarrow>
   Mutex_unlock self 0 m =
     (Inr (), m\<lparr>locked := False\<rparr>, [(Pthread_mutex_unlock, m\<lparr>locked := False\<rparr>)])"
  by (simp add: Mutex_unlock_def Let_def)

lemma Mutex_unlock_native_failure:
  "locked m \<Longrightarrow> self = lock_thread m \<Longrightarrow> temp \<noteq> 0 \<Longrightarrow>
   Mutex_unlock self temp m =
     (Inl (System_error ''pthread_mutex_unlock'' temp), m,
      [(Pthread_mutex_unlock, m\<lparr>locked := False\<rparr>)])"
  by (simp add: Mutex_unlock_def Let_def sysexcept_def)

lemma Mutex_unlock_failure_keeps_state:
  "fst (Mutex_unlock self temp m) = Inl e \<Longrightarrow> fst (snd (Mutex_unlock self temp m)) = m"
  by (cases "locked m"; cases "self = lock_thread m"; cases "temp = 0")
     (simp_all add: Mutex_unlock_not_locked Mutex_unlock_other_thread
        Mutex_unlock_released Mutex_unlock_native_failure)

text \<open>
  Claim C5. \<open>Mutex::unlock\<close> on a mutex that is not locked throws the logic error "not
  locked" and on a mutex locked by another thread the logic error "locking thread
  mismatch", in both cases before any native call and with the fields untouched. Called
  by the owner it issues \<open>pthread_mutex_unlock\<close> once, and at that moment \<open>locked\<close> is
  already false, so that the mutex has no owner; when the native call succeeds the fields
  stay so, when it fails with \<open>temp\<close> the fields are back to what they were and a system
  error carrying \<open>temp\<close> is thrown. Whenever the method throws, the fields after the call
  are the fields before it.
\<close>

theorem Mutex_unlock_contract:
  "(\<not> locked m \<longrightarrow>
      Mutex_unlock self temp m = (Inl (Logic_error MUTEX_NOT_LOCKED), m, []))
   \<and> (locked m \<and> self \<noteq> lock_thread m \<longrightarrow>
      Mutex_unlock self temp m = (Inl (Logic_error LOCKING_THREAD_MISSMATCH), m, []))
   \<and> (locked m \<and> self = lock_thread m \<longrightarrow>
      snd (snd (Mutex_unlock self temp m)) = [(Pthread_mutex_unlock, m\<lparr>locked := False\<rparr>)]
      \<and> owner (m\<lparr>locked := False\<rparr>) = None
      \<and> (temp = 0 \<longrightarrow> fst (Mutex_unlock self temp m) = Inr ()
            \<and> fst (snd (Mutex_unlock self temp m)) = m\<lparr>locked := False\<rparr>)
      \<and> (temp \<noteq> 0 \<longrightarrow>
            fst (Mutex_unlock self temp m) = Inl (System_error ''pthread_mutex_unlock'' temp)
            \<and> fst (snd (Mutex_unlock self temp m)) = m
            \<and> owner (fst (snd (Mutex_unlock self temp m))) = Some self))
   \<and> (\<forall>e. fst (Mutex_unlock self temp m) = Inl e \<longrightarrow>
        fst (snd (Mutex_unlock self temp m)) = m
        \<and> owner (fst (snd (Mutex_unlock self temp m))) = owner m)"
proof (intro conjI impI allI)
  show "Mutex_unlock self temp m = (Inl (Logic_error MUTEX_NOT_LOCKED), m, [])"
    if "\<not> locked m"
    using that by (rule Mutex_unlock_not_locked)
  show "Mutex_unlock self temp m = (Inl (Logic_error LOCKING_THREAD_MISSMATCH), m, [])"
    if "locked m \<and> self \<noteq> lock_thread m"
    using that by (simp add: Mutex_unlock_other_thread)
  show "owner (m\<lparr>locked := False\<rparr>) = None"
    by (simp add: owner_def)
  show "snd (snd (Mutex_unlock self temp m)) = [(Pthread_mutex_unlock, m\<lparr>locked := False\<rparr>)]"
    if "locked m \<and> self = lock_thread m"
    using that
    by (cases "temp = 0") (simp_all add: Mutex_unlock_released Mutex_unlock_native_failure)
  show "fst (Mutex_unlock self temp m) = Inr ()"
    if "locked m \<and> self = lock_thread m" "temp = 0"
    using that by (simp add: Mutex_unlock_released)
  show "fst (snd (Mutex_unlock self temp m)) = m\<lparr>locked := False\<rparr>"
    if "locked m \<and> self = lock_thread m" "temp = 0"
    using that by (simp add: Mutex_unlock_released)
  show "fst (Mutex_unlock self temp m) = Inl (System_error ''pthread_mutex_unlock'' temp)"
    if "locked m \<and> self = lock_thread m" "temp \<noteq> 0"
    using that by (simp add: Mutex_unlock_native_failure)
  show "fst (snd (Mutex_unlock self temp m)) = m"
    if "locked m \<and> self = lock_thread m" "temp \<noteq> 0"
    using that by (simp add: Mutex_unlock_native_failure)
  show "owner (fst (snd (Mutex_unlock self temp m))) = Some self"
    if "locked m \<and> self = lock_thread m" "temp \<noteq> 0"
    using that by (simp add: Mutex_unlock_native_failure owner_def)
  show "fst (snd (Mutex_unlock self temp m)) = m"
    if "fst (Mutex_unlock self temp m) = Inl e" for e
    using that by (rule Mutex_unlock_failure_keeps_state)
  show "owner (fst (snd (Mutex_unlock self temp m))) = owner m"
    if "fst (Mutex_unlock self temp m) = Inl e" for e
    using that by (simp add: Mutex_unlock_failure_keeps_state)
qed

text \<open>The contract at four calls: thread 7 holds the mutex and releases it; the native
  release fails with 1 (\<open>EPERM\<close>); thread 8 tries to release it; nobody holds it.\<close>

theorem Mutex_unlock_contract_witness:
  "Mutex_unlock 7 0 \<lparr>lock_thread = 7, locked = True\<rparr> =
     (Inr (), \<lparr>lock_thread = 7, locked = False\<rparr>,
      [(Pthread_mutex_unlock, \<lparr>lock_thread = 7, locked = False\<rparr>)])
   \<and> Mutex_unlock 7 1 \<lparr>lock_thread = 7, locked = True\<rparr> =
     (Inl (System_error ''pthread_mutex_unlock'' 1), \<lparr>lock_thread = 7, locked = True\<rparr>,
      [(Pthread_mutex_unlock, \<lparr>lock_thread = 7, locked = False\<rparr>)])
   \<and> Mutex_unlock 8 0 \<lparr>lock_thread = 7, locked = True\<rparr> =
     (Inl (Logic_error LOCKING_THREAD_MISSMATCH), \<lparr>lock_thread = 7, locked = True\<rparr>, [])
   \<and> Mutex_unlock 7 0 \<lparr>lock_thread = 7, locked = False\<rparr> =
     (Inl (Logic_error MUTEX_NOT_LOCKED), \<lparr>lock_thread = 7, locked = False\<rparr>, [])"
  using Mutex_unlock_contract [of "\<lparr>lock_thread = 7, locked = True\<rparr>" 7 0]
    Mutex_unlock_contract [of "\<lparr>lock_thread = 7, locked = True\<rparr>" 7 1]
    Mutex_unlock_contract [of "\<lparr>lock_thread = 7, locked = True\<rparr>" 8 0]
    Mutex_unlock_contract [of "\<lparr>lock_thread = 7, locked = False\<rparr>" 7 0]
  by (simp add: prod_eq_iff)

section \<open>Read/write lock: unlock\<close>

lemma RW_Lock_unlock_not_locked:
  "\<not> is_locked l \<Longrightarrow> RW_Lock_unlock temp l = (Inl (Logic_error RW_LOCK_NOT_LOCKED), l, [])"
  by (simp add: RW_Lock_unlock_def)

lemma RW_Lock_unlock_writer:
  "write_locked l \<Longrightarrow>
   RW_Lock_unlock temp l =
     (if temp = 0 then (Inr (), l\<lparr>write_locked := False\<rparr>,
                        [(Pthread_rwlock_unlock, l\<lparr>write_locked := False\<rparr>)])
      else (Inl (System_error ''pthread_rwlock_unlock'' temp), l,
            [(Pthread_rwlock_unlock, l\<lparr>write_locked := False\<rparr>)]))"
  by (simp add: RW_Lock_unlock_def is_locked_def Let_def sysexcept_def)

lemma RW_Lock_unlock_reader:
  "\<not> write_locked l \<Longrightarrow> read_locked l \<noteq> 0 \<Longrightarrow>
   RW_Lock_unlock temp l =
     (if temp = 0 then (Inr (), l\<lparr>read_locked := read_locked l - 1\<rparr>,
                        [(Pthread_rwlock_unlock, l\<lparr>read_locked := read_locked l - 1\<rparr>)])
      else (Inl (System_error ''pthread_rwlock_unlock'' temp), l,
            [(Pthread_rwlock_unlock, l\<lparr>read_locked := read_locked l - 1\<rparr>)]))"
  by (simp add: RW_Lock_unlock_def is_locked_def Let_def sysexcept_def)

text \<open>
  Claim C8. \<open>RW_Lock::unlock\<close> on a lock with no reader and no writer throws the logic
  error "never locked", before any native call and with the fields untouched. Otherwise
  the release is a writer's exactly when \<open>write_locked\<close> is set: then
  \<open>pthread_rwlock_unlock\<close> is issued with \<open>write_locked\<close> already cleared, and else with
  \<open>read_locked\<close> already decremented. When the native call succeeds the fields stay so;
  when it fails with \<open>temp\<close> the field is restored, so that the fields are those
  before the call, and a system error carrying \<open>temp\<close> is thrown.
\<close>

theorem RW_Lock_unlock_contract:
  "(\<not> is_locked l \<longrightarrow>
      RW_Lock_unlock temp l = (Inl (Logic_error RW_LOCK_NOT_LOCKED), l, []))
   \<and> (is_locked l \<and> write_locked l \<longrightarrow>
      snd (snd (RW_Lock_unlock temp l)) = [(Pthread_rwlock_unlock, l\<lparr>write_locked := False\<rparr>)]
      \<and> (temp = 0 \<longrightarrow> fst (RW_Lock_unlock temp l) = Inr ()
            \<and> fst (snd (RW_Lock_unlock temp l)) = l\<lparr>write_locked := False\<rparr>)
      \<and> (temp \<noteq> 0 \<longrightarrow>
            fst (RW_Lock_unlock temp l) = Inl (System_error ''pthread_rwlock_unlock'' temp)
            \<and> fst (snd (RW_Lock_unlock temp l)) = l))
   \<and> (is_locked l \<and> \<not> write_locked l \<longrightarrow>
      snd (snd (RW_Lock_unlock temp l)) =
        [(Pthread_rwlock_unlock, l\<lparr>read_locked := read_locked l - 1\<rparr>)]
      \<and> (temp = 0 \<longrightarrow> fst (RW_Lock_unlock temp l) = Inr ()
            \<and> fst (snd (RW_Lock_unlock temp l)) = l\<lparr>read_locked := read_locked l - 1\<rparr>)
      \<and> (temp \<noteq> 0 \<longrightarrow>
            fst (RW_Lock_unlock temp l) = Inl (System_error ''pthread_rwlock_unlock'' temp)
            \<and> fst (snd (RW_Lock_unlock temp l)) = l))"
proof (intro conjI impI)
  show "RW_Lock_unlock temp l = (Inl (Logic_error RW_LOCK_NOT_LOCKED), l, [])"
    if "\<not> is_locked l"
    using that by (rule RW_Lock_unlock_not_locked)
next
  assume w: "is_locked l \<and> write_locked l"
  then have *: "write_locked l" by simp
  show "snd (snd (RW_Lock_unlock temp l)) = [(Pthread_rwlock_unlock, l\<lparr>write_locked := False\<rparr>)]"
    by (simp add: RW_Lock_unlock_writer [OF *])
  show "fst (RW_Lock_unlock temp l) = Inr ()" if "temp = 0"
    using that by (simp add: RW_Lock_unlock_writer [OF *])
  show "fst (snd (RW_Lock_unlock temp l)) = l\<lparr>write_locked := False\<rparr>" if "temp = 0"
    using that by (simp add: RW_Lock_unlock_writer [OF *])
  show "fst (RW_Lock_unlock temp l) = Inl (System_error ''pthread_rwlock_unlock'' temp)"
    if "temp \<noteq> 0"
    using that by (simp add: RW_Lock_unlock_writer [OF *])
  show "fst (snd (RW_Lock_unlock temp l)) = l" if "temp \<noteq> 0"
    using that by (simp add: RW_Lock_unlock_writer [OF *])
next
  assume r: "is_locked l \<and> \<not> write_locked l"
  then have *: "\<not> write_locked l" and **: "read_locked l \<noteq> 0"
    by (auto simp add: is_locked_def)
  show "snd (snd (RW_Lock_unlock temp l)) =
          [(Pthread_rwlock_unlock, l\<lparr>read_locked := read_locked l - 1\<rparr>)]"
    by (simp add: RW_Lock_unlock_reader [OF * **])
  show "fst (RW_Lock_unlock temp l) = Inr ()" if "temp = 0"
    using that by (simp add: RW_Lock_unlock_reader [OF * **])
  show "fst (snd (RW_Lock_unlock temp l)) = l\<lparr>read_locked := read_locked l - 1\<rparr>"
    if "temp = 0"
    using that by (simp add: RW_Lock_unlock_reader [OF * **])
  show "fst (RW_Lock_unlock temp l) = Inl (System_error ''pthread_rwlock_unlock'' temp)"
    if "temp \<noteq> 0"
    using that by (simp add: RW_Lock_unlock_reader [OF * **])
  show "fst (snd (RW_Lock_unlock temp l)) = l" if "temp \<noteq> 0"
    using that by (simp add: RW_Lock_unlock_reader [OF * **])
qed

text \<open>The contract at five calls: a writer releases, with and without a failure (1 is
  \<open>EPERM\<close>) of the native call; one of three readers releases, with and without a
  failure; nobody holds the lock.\<close>

theorem RW_Lock_unlock_contract_witness:
  "RW_Lock_unlock 0 \<lparr>read_locked = 0, write_locked = True\<rparr> =
     (Inr (), \<lparr>read_locked = 0, write_locked = False\<rparr>,
      [(Pthread_rwlock_unlock, \<lparr>read_locked = 0, write_locked = False\<rparr>)])
   \<and> RW_Lock_unlock 1 \<lparr>read_locked = 0, write_locked = True\<rparr> =
     (Inl (System_error ''pthread_rwlock_unlock'' 1), \<lparr>read_locked = 0, write_locked = True\<rparr>,
      [(Pthread_rwlock_unlock, \<lparr>read_locked = 0, write_locked = False\<rparr>)])
   \<and> RW_Lock_unlock 0 \<lparr>read_locked = 3, write_locked = False\<rparr> =
     (Inr (), \<lparr>read_locked = 2, write_locked = False\<rparr>,
      [(Pthread_rwlock_unlock, \<lparr>read_locked = 2, write_locked = False\<rparr>)])
   \<and> RW_Lock_unlock 1 \<lparr>read_locked = 3, write_locked = False\<rparr> =
     (Inl (System_error ''pthread_rwlock_unlock'' 1), \<lparr>read_locked = 3, write_locked = False\<rparr>,
      [(Pthread_rwlock_unlock, \<lparr>read_locked = 2, write_locked = False\<rparr>)])
   \<and> RW_Lock_unlock 0 \<lparr>read_locked = 0, write_locked = False\<rparr> =
     (Inl (Logic_error RW_LOCK_NOT_LOCKED), \<lparr>read_locked = 0, write_locked = False\<rparr>, [])"
  using RW_Lock_unlock_contract [of "\<lparr>read_locked = 0, write_locked = True\<rparr>" 0]
    RW_Lock_unlock_contract [of "\<lparr>read_locked = 0, write_locked = True\<rparr>" 1]
    RW_Lock_unlock_contract [of "\<lparr>read_locked = 3, write_locked = False\<rparr>" 0]
    RW_Lock_unlock_contract [of "\<lparr>read_locked = 3, write_locked = False\<rparr>" 1]
    RW_Lock_unlock_contract [of "\<lparr>read_locked = 0, write_locked = False\<rparr>" 0]
  by (simp add: prod_eq_iff is_locked_def)

section \<open>Condition: wait\<close>

lemma wait_loop_pending:
  "signal_created c \<Longrightarrow> wait_loop wakes c calls = Some (Inr (), c, calls)"
  by (cases wakes) auto

lemma wait_loop_exit:
  "wait_loop wakes c calls = Some (Inr u, c2, calls2) \<Longrightarrow>
   signal_created c2 \<and> (c2 = c \<or> c2 \<in> snd ` set wakes)"
proof (induction wakes c calls rule: wait_loop.induct)
  case (1 c calls)
  then show ?case by (simp split: if_splits)
next
  case (2 temp c' wakes c calls)
  show ?case
  proof (cases "signal_created c")
    case True
    with "2.prems" show ?thesis by simp
  next
    case False
    show ?thesis
    proof (cases "temp = 0")
      case True
      with False "2.prems"
      have "wait_loop wakes c' (calls @ [(Pthread_cond_wait, c)]) = Some (Inr u, c2, calls2)"
        by (simp add: sysexcept_def)
      with False True "2.IH" have "signal_created c2 \<and> (c2 = c' \<or> c2 \<in> snd ` set wakes)"
        by (simp add: sysexcept_def)
      then show ?thesis by auto
    next
      case nz: False
      with False "2.prems" show ?thesis by (simp add: sysexcept_def)
    qed
  qed
qed

text \<open>Returns of \<open>pthread_cond_wait\<close> that find no signal pending send the thread back
  into the call; the next return decides.\<close>

lemma wait_loop_skip:
  "\<not> signal_created c \<Longrightarrow> \<forall>w\<in>set spurious. fst w = 0 \<and> \<not> signal_created (snd w) \<Longrightarrow>
   wait_loop (spurious @ (temp, c') # rest) c calls =
     (if temp \<noteq> 0
      then Some (Inl (System_error ''pthread_cond_wait'' temp), c',
                 calls @ map (Pair Pthread_cond_wait) (c # map snd spurious))
      else wait_loop rest c' (calls @ map (Pair Pthread_cond_wait) (c # map snd spurious)))"
proof (induction spurious arbitrary: c calls)
  case Nil
  then show ?case by (simp add: sysexcept_def)
next
  case (Cons w spurious)
  obtain t d where w: "w = (t, d)" by (cases w)
  from Cons.prems w have t: "t = 0" and n: "\<not> signal_created d" by auto
  from Cons.prems have rest: "\<forall>w\<in>set spurious. fst w = 0 \<and> \<not> signal_created (snd w)" by simp
  have "wait_loop ((w # spurious) @ (temp, c') # rest) c calls =
        wait_loop (spurious @ (temp, c') # rest) d (calls @ [(Pthread_cond_wait, c)])"
    using Cons.prems(1) w t by (simp add: sysexcept_def)
  also note Cons.IH [OF n rest, of "calls @ [(Pthread_cond_wait, c)]"]
  finally show ?case using w by simp
qed

lemma wait_loop_never:
  "\<not> signal_created c \<Longrightarrow> \<forall>w\<in>set spurious. fst w = 0 \<and> \<not> signal_created (snd w) \<Longrightarrow>
   wait_loop spurious c calls = None"
proof (induction spurious arbitrary: c calls)
  case Nil
  then show ?case by simp
next
  case (Cons w spurious)
  obtain t d where w: "w = (t, d)" by (cases w)
  from Cons.prems w have t: "t = 0" and n: "\<not> signal_created d" by auto
  from Cons.prems have rest: "\<forall>w\<in>set spurious. fst w = 0 \<and> \<not> signal_created (snd w)" by simp
  have "wait_loop (w # spurious) c calls =
        wait_loop spurious d (calls @ [(Pthread_cond_wait, c)])"
    using Cons.prems(1) w t by (simp add: sysexcept_def)
  with Cons.IH [OF n rest] show ?case by simp
qed

lemma Condition_wait_returns_true:
  assumes "Condition_wait lock_ret wakes unlock_ret c = Some (Inr b, c', calls)"
  shows "b \<and> lock_ret = 0 \<and> unlock_ret = 0
    \<and> (\<exists>c2. signal_created c2
          \<and> (c2 = c\<lparr>waiting_thread_count := waiting_thread_count c + 1\<rparr>
              \<or> c2 \<in> snd ` set wakes)
          \<and> c' = leave_wait c2)"
proof -
  let ?c1 = "c\<lparr>waiting_thread_count := waiting_thread_count c + 1\<rparr>"
  from assms have l: "lock_ret = 0"
    by (cases "lock_ret = 0") (simp_all add: Condition_wait_def sysexcept_def)
  from assms l obtain c2 calls2 where
    loop: "wait_loop wakes ?c1 [(Pthread_mutex_lock, c)] = Some (Inr (), c2, calls2)"
    by (auto simp add: Condition_wait_def sysexcept_def split: option.splits sum.splits)
  from assms l loop have "b" and "unlock_ret = 0" and "c' = leave_wait c2"
    by (auto simp add: Condition_wait_def sysexcept_def split: if_splits)
  with l wait_loop_exit [OF loop] show ?thesis by blast
qed

lemma Condition_wait_pending_at_entry:
  assumes "signal_created c"
  shows "Condition_wait 0 wakes 0 c =
     Some (Inr True, leave_wait (c\<lparr>waiting_thread_count := waiting_thread_count c + 1\<rparr>),
       [(Pthread_mutex_lock, c),
        (Pthread_mutex_unlock,
         leave_wait (c\<lparr>waiting_thread_count := waiting_thread_count c + 1\<rparr>))])"
proof -
  let ?c1 = "c\<lparr>waiting_thread_count := waiting_thread_count c + 1\<rparr>"
  from assms have "signal_created ?c1" by simp
  then have "wait_loop wakes ?c1 [(Pthread_mutex_lock, c)] =
      Some (Inr (), ?c1, [(Pthread_mutex_lock, c)])"
    by (rule wait_loop_pending)
  then show ?thesis by (simp add: Condition_wait_def sysexcept_def)
qed

lemma Condition_wait_after_signal:
  assumes "\<not> signal_created c"
    and "\<forall>w\<in>set spurious. fst w = 0 \<and> \<not> signal_created (snd w)"
    and "signal_created c2"
  shows "Condition_wait 0 (spurious @ (0, c2) # rest) 0 c =
     Some (Inr True, leave_wait c2,
       (Pthread_mutex_lock, c)
       # map (Pair Pthread_cond_wait)
           (c\<lparr>waiting_thread_count := waiting_thread_count c + 1\<rparr> # map snd spurious)
       @ [(Pthread_mutex_unlock, leave_wait c2)])"
proof -
  let ?c1 = "c\<lparr>waiting_thread_count := waiting_thread_count c + 1\<rparr>"
  from assms(1) have n: "\<not> signal_created ?c1" by simp
  have "wait_loop (spurious @ (0, c2) # rest) ?c1 [(Pthread_mutex_lock, c)] =
      wait_loop rest c2
        ([(Pthread_mutex_lock, c)] @ map (Pair Pthread_cond_wait) (?c1 # map snd spurious))"
    using wait_loop_skip [OF n assms(2), of 0 c2 rest "[(Pthread_mutex_lock, c)]"] by simp
  also have "\<dots> = Some (Inr (), c2,
      [(Pthread_mutex_lock, c)] @ map (Pair Pthread_cond_wait) (?c1 # map snd spurious))"
    using assms(3) by (rule wait_loop_pending)
  finally show ?thesis by (simp add: Condition_wait_def sysexcept_def)
qed

lemma Condition_wait_never_signalled:
  assumes "\<not> signal_created c"
    and "\<forall>w\<in>set spurious. fst w = 0 \<and> \<not> signal_created (snd w)"
  shows "Condition_wait 0 spurious unlock_ret c = None"
proof -
  let ?c1 = "c\<lparr>waiting_thread_count := waiting_thread_count c + 1\<rparr>"
  from assms(1) have n: "\<not> signal_created ?c1" by simp
  from wait_loop_never [OF n assms(2)] show ?thesis
    by (simp add: Condition_wait_def sysexcept_def)
qed

text \<open>The failures of the native calls: each surfaces as a system error carrying the
  return value of the call.\<close>

lemma Condition_wait_failures:
  "lock_ret \<noteq> 0 \<Longrightarrow>
   Condition_wait lock_ret wakes unlock_ret c =
     Some (Inl (System_error ''pthread_mutex_lock'' lock_ret), c, [(Pthread_mutex_lock, c)])"
  "\<not> signal_created c \<Longrightarrow> \<forall>w\<in>set spurious. fst w = 0 \<and> \<not> signal_created (snd w) \<Longrightarrow>
   temp \<noteq> 0 \<Longrightarrow>
   Condition_wait 0 (spurious @ (temp, c') # rest) unlock_ret c =
     Some (Inl (System_error ''pthread_cond_wait'' temp), c',
       (Pthread_mutex_lock, c)
       # map (Pair Pthread_cond_wait)
           (c\<lparr>waiting_thread_count := waiting_thread_count c + 1\<rparr> # map snd spurious))"
  "signal_created c \<Longrightarrow> unlock_ret \<noteq> 0 \<Longrightarrow>
   fst (the (Condition_wait 0 wakes unlock_ret c)) =
     Inl (System_error ''pthread_mutex_unlock'' unlock_ret)"
proof -
  let ?c1 = "c\<lparr>waiting_thread_count := waiting_thread_count c + 1\<rparr>"
  show "Condition_wait lock_ret wakes unlock_ret c =
     Some (Inl (System_error ''pthread_mutex_lock'' lock_ret), c, [(Pthread_mutex_lock, c)])"
    if "lock_ret \<noteq> 0"
    using that by (simp add: Condition_wait_def sysexcept_def)
  show "Condition_wait 0 (spurious @ (temp, c') # rest) unlock_ret c =
     Some (Inl (System_error ''pthread_cond_wait'' temp), c',
       (Pthread_mutex_lock, c) # map (Pair Pthread_cond_wait) (?c1 # map snd spurious))"
    if "\<not> signal_created c" "\<forall>w\<in>set spurious. fst w = 0 \<and> \<not> signal_created (snd w)"
      "temp \<noteq> 0"
  proof -
    from that(1) have n: "\<not> signal_created ?c1" by simp
    from wait_loop_skip [OF n that(2), of temp c' rest "[(Pthread_mutex_lock, c)]"] that(3)
    show ?thesis by (simp add: Condition_wait_def sysexcept_def)
  qed
  show "fst (the (Condition_wait 0 wakes unlock_ret c)) =
     Inl (System_error ''pthread_mutex_unlock'' unlock_ret)"
    if "signal_created c" "unlock_ret \<noteq> 0"
  proof -
    from that(1) have "signal_created ?c1" by simp
    then have "wait_loop wakes ?c1 [(Pthread_mutex_lock, c)] =
        Some (Inr (), ?c1, [(Pthread_mutex_lock, c)])"
      by (rule wait_loop_pending)
    with that(2) show ?thesis by (simp add: Condition_wait_def sysexcept_def)
  qed
qed

lemma leave_wait_fields:
  "waiting_thread_count (leave_wait c) = waiting_thread_count c - 1"
  "wakeup_by_brodcast (leave_wait c) = wakeup_by_brodcast c"
  "signal_created (leave_wait c) =
     (signal_created c \<and> wakeup_by_brodcast c \<and> 0 < waiting_thread_count c - 1)"
proof -
  show "waiting_thread_count (leave_wait c) = waiting_thread_count c - 1"
    by (simp add: leave_wait_def Let_def)
  show "wakeup_by_brodcast (leave_wait c) = wakeup_by_brodcast c"
    by (simp add: leave_wait_def Let_def)
  have "(0 < waiting_thread_count c - 1) = (waiting_thread_count c - 1 \<noteq> 0)"
    by (rule word_neq_0_conv [symmetric])
  then show "signal_created (leave_wait c) =
     (signal_created c \<and> wakeup_by_brodcast c \<and> 0 < waiting_thread_count c - 1)"
    by (simp only: leave_wait_def Let_def) (simp del: word_neq_0_conv)
qed

lemma leave_wait_broadcast_iterated:
  assumes "signal_created c" "wakeup_by_brodcast c" "waiting_thread_count c = of_nat n"
    and "n < 2 ^ 64" "k \<le> n" "0 < n"
  shows "waiting_thread_count ((leave_wait ^^ k) c) = of_nat (n - k)
     \<and> wakeup_by_brodcast ((leave_wait ^^ k) c)
     \<and> signal_created ((leave_wait ^^ k) c) = (k < n)"
  using assms(5)
proof (induction k)
  case 0
  with assms show ?case by simp
next
  case (Suc k)
  then have k: "k < n" and IH: "waiting_thread_count ((leave_wait ^^ k) c) = of_nat (n - k)"
    "wakeup_by_brodcast ((leave_wait ^^ k) c)" "signal_created ((leave_wait ^^ k) c)"
    by simp_all
  from k have nk: "n - k = Suc (n - Suc k)" by simp
  have eq: "(of_nat (n - k) :: size_t) - 1 = of_nat (n - Suc k)"
    by (simp only: nk of_nat_Suc) simp
  have pos: "(0 < (of_nat (n - Suc k) :: size_t)) = (Suc k < n)"
  proof (cases "Suc k < n")
    case True
    then have "0 < n - Suc k" and "n - Suc k < 2 ^ LENGTH(64)" using assms(4) by simp_all
    then have "(of_nat (n - Suc k) :: size_t) \<noteq> 0" by (rule of_nat_neq_0)
    with True show ?thesis by (simp only: word_neq_0_conv)
  next
    case False
    with k have "n - Suc k = 0" by simp
    with False show ?thesis by simp
  qed
  have "waiting_thread_count ((leave_wait ^^ Suc k) c) = of_nat (n - Suc k)"
    using IH(1) eq by (simp add: leave_wait_fields(1))
  moreover have "wakeup_by_brodcast ((leave_wait ^^ Suc k) c)"
    using IH(2) by (simp add: leave_wait_fields(2))
  moreover have "signal_created ((leave_wait ^^ Suc k) c) = (Suc k < n)"
    using IH eq pos by (simp add: leave_wait_fields(3))
  ultimately show ?case by blast
qed

text \<open>
  Claim C6. \<open>c\<close> are the fields found when the mutex is acquired, and \<open>c\<close> with the count
  of waiting threads incremented are the fields the caller waits with.
  \<^item> A call of \<open>Condition::wait()\<close> that returns, returns \<open>true\<close>; the mutex calls
    succeeded, and the loop was left at fields \<open>c2\<close> where a signal is pending, which
    are the fields the caller waited with or the fields found at a return of
    \<open>pthread_cond_wait\<close>; the fields left behind are \<open>leave_wait c2\<close>.
  \<^item> \<open>leave_wait\<close> decrements the count of waiting threads and clears the pending
    signal unless the wake-up came from a broadcast and the decremented count is still
    greater than zero.
  \<^item> With the mutex calls successful the call returns \<open>true\<close> as soon as a signal is
    pending: at once, without a call of \<open>pthread_cond_wait\<close>, when one is pending at
    entry; and else after any number of returns of \<open>pthread_cond_wait\<close> that find no
    signal pending and one that finds it pending at \<open>c2\<close>. The first
    \<open>pthread_cond_wait\<close> is issued with the count incremented, and the mutex is
    released with the fields \<open>leave_wait c2\<close>.
  \<^item> While no signal becomes pending the call does not return.
  \<^item> After a broadcast to \<open>n\<close> waiting threads, the signal is still pending when
    \<open>k < n\<close> of them have left and cleared when all \<open>n\<close> have: the last one clears it.
\<close>

theorem Condition_wait_contract:
  "(\<forall>b c' calls. Condition_wait lock_ret wakes unlock_ret c = Some (Inr b, c', calls) \<longrightarrow>
      b \<and> lock_ret = 0 \<and> unlock_ret = 0
      \<and> (\<exists>c2. signal_created c2
            \<and> (c2 = c\<lparr>waiting_thread_count := waiting_thread_count c + 1\<rparr>
                \<or> c2 \<in> snd ` set wakes)
            \<and> c' = leave_wait c2))
   \<and> waiting_thread_count (leave_wait d) = waiting_thread_count d - 1
   \<and> wakeup_by_brodcast (leave_wait d) = wakeup_by_brodcast d
   \<and> signal_created (leave_wait d) =
       (signal_created d \<and> wakeup_by_brodcast d \<and> 0 < waiting_thread_count d - 1)
   \<and> (signal_created c \<longrightarrow>
      Condition_wait 0 wakes 0 c =
        Some (Inr True, leave_wait (c\<lparr>waiting_thread_count := waiting_thread_count c + 1\<rparr>),
          [(Pthread_mutex_lock, c),
           (Pthread_mutex_unlock,
            leave_wait (c\<lparr>waiting_thread_count := waiting_thread_count c + 1\<rparr>))]))
   \<and> (\<not> signal_created c \<and> (\<forall>w\<in>set spurious. fst w = 0 \<and> \<not> signal_created (snd w))
        \<and> signal_created c2 \<longrightarrow>
      Condition_wait 0 (spurious @ (0, c2) # rest) 0 c =
        Some (Inr True, leave_wait c2,
          (Pthread_mutex_lock, c)
          # map (Pair Pthread_cond_wait)
              (c\<lparr>waiting_thread_count := waiting_thread_count c + 1\<rparr> # map snd spurious)
          @ [(Pthread_mutex_unlock, leave_wait c2)]))
   \<and> (\<not> signal_created c \<and> (\<forall>w\<in>set spurious. fst w = 0 \<and> \<not> signal_created (snd w)) \<longrightarrow>
      Condition_wait 0 spurious unlock_ret c = None)
   \<and> (signal_created e \<and> wakeup_by_brodcast e \<and> waiting_thread_count e = of_nat n
        \<and> 0 < n \<and> n < 2 ^ 64 \<and> k \<le> n \<longrightarrow>
      signal_created ((leave_wait ^^ k) e) = (k < n))"
proof (intro conjI impI allI)
  fix b c' calls
  assume r: "Condition_wait lock_ret wakes unlock_ret c = Some (Inr b, c', calls)"
  note t = Condition_wait_returns_true [OF r]
  from t show "b" by simp
  from t show "lock_ret = 0" by simp
  from t show "unlock_ret = 0" by simp
  from t show "\<exists>c2. signal_created c2
            \<and> (c2 = c\<lparr>waiting_thread_count := waiting_thread_count c + 1\<rparr>
                \<or> c2 \<in> snd ` set wakes)
            \<and> c' = leave_wait c2" by simp
next
  show "waiting_thread_count (leave_wait d) = waiting_thread_count d - 1"
    by (rule leave_wait_fields)
  show "wakeup_by_brodcast (leave_wait d) = wakeup_by_brodcast d"
    by (rule leave_wait_fields)
  show "signal_created (leave_wait d) =
       (signal_created d \<and> wakeup_by_brodcast d \<and> 0 < waiting_thread_count d - 1)"
    by (rule leave_wait_fields)
next
  assume "signal_created c"
  then show "Condition_wait 0 wakes 0 c =
        Some (Inr True, leave_wait (c\<lparr>waiting_thread_count := waiting_thread_count c + 1\<rparr>),
          [(Pthread_mutex_lock, c),
           (Pthread_mutex_unlock,
            leave_wait (c\<lparr>waiting_thread_count := waiting_thread_count c + 1\<rparr>))])"
    by (rule Condition_wait_pending_at_entry)
next
  assume "\<not> signal_created c \<and> (\<forall>w\<in>set spurious. fst w = 0 \<and> \<not> signal_created (snd w))
        \<and> signal_created c2"
  then show "Condition_wait 0 (spurious @ (0, c2) # rest) 0 c =
        Some (Inr True, leave_wait c2,
          (Pthread_mutex_lock, c)
          # map (Pair Pthread_cond_wait)
              (c\<lparr>waiting_thread_count := waiting_thread_count c + 1\<rparr> # map snd spurious)
          @ [(Pthread_mutex_unlock, leave_wait c2)])"
    by (intro Condition_wait_after_signal) simp_all
next
  assume "\<not> signal_created c \<and> (\<forall>w\<in>set spurious. fst w = 0 \<and> \<not> signal_created (snd w))"
  then show "Condition_wait 0 spurious unlock_ret c = None"
    by (intro Condition_wait_never_signalled) simp_all
next
  assume "signal_created e \<and> wakeup_by_brodcast e \<and> waiting_thread_count e = of_nat n
        \<and> 0 < n \<and> n < 2 ^ 64 \<and> k \<le> n"
  then show "signal_created ((leave_wait ^^ k) e) = (k < n)"
    using leave_wait_broadcast_iterated [of e n k] by simp
qed

text \<open>The contract at three calls and a broadcast.
  \<^item> A thread starts to wait while two others wait, returns once from
    \<open>pthread_cond_wait\<close> with no signal pending, and then after a broadcast to the three:
    it has waited with the count 3 and leaves the signal pending for the other two.
  \<^item> A thread calls \<open>wait\<close> while that broadcast is still pending for two threads: it
    returns at once, and the count is 2 again.
  \<^item> A thread whose only return from \<open>pthread_cond_wait\<close> finds no signal pending does
    not return.
  \<^item> Of three threads woken by a broadcast, the second leaves the signal pending and
    the third clears it.\<close>

theorem Condition_wait_contract_witness:
  "Condition_wait 0
     [(0, \<lparr>signal_created = False, waiting_thread_count = 3, wakeup_by_brodcast = False\<rparr>),
      (0, \<lparr>signal_created = True, waiting_thread_count = 3, wakeup_by_brodcast = True\<rparr>)] 0
     \<lparr>signal_created = False, waiting_thread_count = 2, wakeup_by_brodcast = False\<rparr> =
   Some (Inr True,
     \<lparr>signal_created = True, waiting_thread_count = 2, wakeup_by_brodcast = True\<rparr>,
     [(Pthread_mutex_lock,
       \<lparr>signal_created = False, waiting_thread_count = 2, wakeup_by_brodcast = False\<rparr>),
      (Pthread_cond_wait,
       \<lparr>signal_created = False, waiting_thread_count = 3, wakeup_by_brodcast = False\<rparr>),
      (Pthread_cond_wait,
       \<lparr>signal_created = False, waiting_thread_count = 3, wakeup_by_brodcast = False\<rparr>),
      (Pthread_mutex_unlock,
       \<lparr>signal_created = True, waiting_thread_count = 2, wakeup_by_brodcast = True\<rparr>)])
   \<and> Condition_wait 0 [] 0
     \<lparr>signal_created = True, waiting_thread_count = 2, wakeup_by_brodcast = True\<rparr> =
   Some (Inr True,
     \<lparr>signal_created = True, waiting_thread_count = 2, wakeup_by_brodcast = True\<rparr>,
     [(Pthread_mutex_lock,
       \<lparr>signal_created = True, waiting_thread_count = 2, wakeup_by_brodcast = True\<rparr>),
      (Pthread_mutex_unlock,
       \<lparr>signal_created = True, waiting_thread_count = 2, wakeup_by_brodcast = True\<rparr>)])
   \<and> Condition_wait 0
     [(0, \<lparr>signal_created = False, waiting_thread_count = 3, wakeup_by_brodcast = False\<rparr>)] 0
     \<lparr>signal_created = False, waiting_thread_count = 2, wakeup_by_brodcast = False\<rparr> = None
   \<and> signal_created ((leave_wait ^^ 2)
        \<lparr>signal_created = True, waiting_thread_count = 3, wakeup_by_brodcast = True\<rparr>)
   \<and> \<not> signal_created ((leave_wait ^^ 3)
        \<lparr>signal_created = True, waiting_thread_count = 3, wakeup_by_brodcast = True\<rparr>)"
proof -
  let ?b = "\<lparr>signal_created = True, waiting_thread_count = 3, wakeup_by_brodcast = True\<rparr>"
  let ?p = "\<lparr>signal_created = True, waiting_thread_count = 2, wakeup_by_brodcast = True\<rparr>"
  let ?s = "\<lparr>signal_created = False, waiting_thread_count = 3, wakeup_by_brodcast = False\<rparr>"
  let ?c = "\<lparr>signal_created = False, waiting_thread_count = 2, wakeup_by_brodcast = False\<rparr>"
  note waiting = Condition_wait_contract [where lock_ret = 0 and wakes = "[(0, ?s), (0, ?b)]"
      and unlock_ret = 0 and c = ?c and d = ?b and spurious = "[(0, ?s)]" and ?c2.0 = ?b
      and rest = "[]" and e = ?b and n = 3 and k = 2]
  note entry = Condition_wait_contract [where lock_ret = 0 and wakes = "[]"
      and unlock_ret = 0 and c = ?p and d = ?b and spurious = "[(0, ?s)]" and ?c2.0 = ?b
      and rest = "[]" and e = ?b and n = 3 and k = 3]
  have left: "leave_wait ?b = ?p"
    by (simp add: leave_wait_def Let_def)
  have run: "Condition_wait 0 ([(0, ?s)] @ (0, ?b) # []) 0 ?c =
        Some (Inr True, leave_wait ?b,
          (Pthread_mutex_lock, ?c)
          # map (Pair Pthread_cond_wait)
              (?c\<lparr>waiting_thread_count := waiting_thread_count ?c + 1\<rparr> # map snd [(0::int, ?s)])
          @ [(Pthread_mutex_unlock, leave_wait ?b)])"
    using waiting by (elim conjE) simp
  have pending: "Condition_wait 0 [] 0 ?p =
        Some (Inr True, leave_wait (?p\<lparr>waiting_thread_count := waiting_thread_count ?p + 1\<rparr>),
          [(Pthread_mutex_lock, ?p),
           (Pthread_mutex_unlock,
            leave_wait (?p\<lparr>waiting_thread_count := waiting_thread_count ?p + 1\<rparr>))])"
    using entry by (elim conjE) simp
  have never: "Condition_wait 0 [(0, ?s)] 0 ?c = None"
    using waiting by (elim conjE) simp
  have two: "signal_created ((leave_wait ^^ 2) ?b) = (2 < (3::nat))"
    using waiting by (elim conjE) simp
  have three: "signal_created ((leave_wait ^^ 3) ?b) = (3 < (3::nat))"
    using entry by (elim conjE) simp
  from run pending never left two three show ?thesis by simp
qed

section \<open>Condition: signal and broadcast\<close>

lemma notify_success:
  "notify by_broadcast call name 0 0 0 others c =
     (Inr (waiting_thread_count c \<noteq> 0),
      others (c\<lparr>signal_created := (waiting_thread_count c \<noteq> 0),
                wakeup_by_brodcast := by_broadcast\<rparr>),
      [Pthread_mutex_lock, call, Pthread_mutex_unlock])"
  by (simp add: notify_def sysexcept_def Let_def)

lemma notify_result:
  "notify by_broadcast call name lock_ret temp unlock_ret others c = (Inr b, c', calls) \<Longrightarrow>
   b = (waiting_thread_count c \<noteq> 0)"
  by (auto simp add: notify_def sysexcept_def Let_def split: if_splits)

text \<open>
  Claim C7. With the three native calls successful, \<open>Condition::signal\<close> takes the mutex,
  sets \<open>signal_created\<close> to "the count of waiting threads is not zero" and
  \<open>wakeup_by_brodcast\<close> to false, notifies one thread, releases the mutex and returns
  the value it gave to \<open>signal_created\<close>, whatever the other threads do to the fields
  after the release (\<open>others\<close>): the result is true exactly when a thread was waiting at
  the time of the call. \<open>Condition::broadcast\<close> does the same with \<open>wakeup_by_brodcast\<close>
  set to true and the notification of all threads. Whatever the native calls answer, a
  result that is returned is that value.
\<close>

theorem Condition_signal_contract:
  "Condition_signal 0 0 0 others c =
     (Inr (waiting_thread_count c \<noteq> 0),
      others (c\<lparr>signal_created := (waiting_thread_count c \<noteq> 0),
                wakeup_by_brodcast := False\<rparr>),
      [Pthread_mutex_lock, Pthread_cond_signal, Pthread_mutex_unlock])
   \<and> Condition_broadcast 0 0 0 others c =
     (Inr (waiting_thread_count c \<noteq> 0),
      others (c\<lparr>signal_created := (waiting_thread_count c \<noteq> 0),
                wakeup_by_brodcast := True\<rparr>),
      [Pthread_mutex_lock, Pthread_cond_broadcast, Pthread_mutex_unlock])
   \<and> (\<forall>b c' calls. Condition_signal lock_ret temp unlock_ret others c = (Inr b, c', calls) \<longrightarrow>
        b = (waiting_thread_count c \<noteq> 0))
   \<and> (\<forall>b c' calls. Condition_broadcast lock_ret temp unlock_ret others c = (Inr b, c', calls) \<longrightarrow>
        b = (waiting_thread_count c \<noteq> 0))"
proof (intro conjI impI allI)
  show "Condition_signal 0 0 0 others c =
     (Inr (waiting_thread_count c \<noteq> 0),
      others (c\<lparr>signal_created := (waiting_thread_count c \<noteq> 0),
                wakeup_by_brodcast := False\<rparr>),
      [Pthread_mutex_lock, Pthread_cond_signal, Pthread_mutex_unlock])"
    unfolding Condition_signal_def by (rule notify_success)
  show "Condition_broadcast 0 0 0 others c =
     (Inr (waiting_thread_count c \<noteq> 0),
      others (c\<lparr>signal_created := (waiting_thread_count c \<noteq> 0),
                wakeup_by_brodcast := True\<rparr>),
      [Pthread_mutex_lock, Pthread_cond_broadcast, Pthread_mutex_unlock])"
    unfolding Condition_broadcast_def by (rule notify_success)
  show "b = (waiting_thread_count c \<noteq> 0)"
    if "Condition_signal lock_ret temp unlock_ret others c = (Inr b, c', calls)"
    for b c' calls
    using that unfolding Condition_signal_def by (rule notify_result)
  show "b = (waiting_thread_count c \<noteq> 0)"
    if "Condition_broadcast lock_ret temp unlock_ret others c = (Inr b, c', calls)"
    for b c' calls
    using that unfolding Condition_broadcast_def by (rule notify_result)
qed

text \<open>The contract at four calls. One thread waits, and as soon as \<open>signal\<close> has released
  the mutex that thread leaves \<open>wait\<close> and clears the pending signal: \<open>signal\<close> still
  returns true. Nobody waits: \<open>signal\<close> returns false. The same for \<open>broadcast\<close> with
  three waiting threads, one of which leaves at once, and with none.\<close>

theorem Condition_signal_contract_witness:
  "Condition_signal 0 0 0 leave_wait
     \<lparr>signal_created = False, waiting_thread_count = 1, wakeup_by_brodcast = False\<rparr> =
     (Inr True,
      \<lparr>signal_created = False, waiting_thread_count = 0, wakeup_by_brodcast = False\<rparr>,
      [Pthread_mutex_lock, Pthread_cond_signal, Pthread_mutex_unlock])
   \<and> Condition_signal 0 0 0 id
     \<lparr>signal_created = False, waiting_thread_count = 0, wakeup_by_brodcast = False\<rparr> =
     (Inr False,
      \<lparr>signal_created = False, waiting_thread_count = 0, wakeup_by_brodcast = False\<rparr>,
      [Pthread_mutex_lock, Pthread_cond_signal, Pthread_mutex_unlock])
   \<and> Condition_broadcast 0 0 0 leave_wait
     \<lparr>signal_created = False, waiting_thread_count = 3, wakeup_by_brodcast = False\<rparr> =
     (Inr True,
      \<lparr>signal_created = True, waiting_thread_count = 2, wakeup_by_brodcast = True\<rparr>,
      [Pthread_mutex_lock, Pthread_cond_broadcast, Pthread_mutex_unlock])
   \<and> Condition_broadcast 0 0 0 id
     \<lparr>signal_created = False, waiting_thread_count = 0, wakeup_by_brodcast = False\<rparr> =
     (Inr False,
      \<lparr>signal_created = False, waiting_thread_count = 0, wakeup_by_brodcast = True\<rparr>,
      [Pthread_mutex_lock, Pthread_cond_broadcast, Pthread_mutex_unlock])"
  using
    Condition_signal_contract [of leave_wait
      "\<lparr>signal_created = False, waiting_thread_count = 1, wakeup_by_brodcast = False\<rparr>" 0 0 0]
    Condition_signal_contract [of id
      "\<lparr>signal_created = False, waiting_thread_count = 0, wakeup_by_brodcast = False\<rparr>" 0 0 0]
    Condition_signal_contract [of leave_wait
      "\<lparr>signal_created = False, waiting_thread_count = 3, wakeup_by_brodcast = False\<rparr>" 0 0 0]
  by (simp add: leave_wait_def Let_def)

section \<open>Thread: the three joins\<close>

lemma Thread_join_detached:
  "detachstate t = DETACHED \<Longrightarrow>
   Thread_join return_value temp exit_value t = (Inl (Logic_error JOIN_DETACHED), t, [])
   \<and> Thread_try_join return_value temp exit_value t = (Inl (Logic_error JOIN_DETACHED), t, [])
   \<and> Thread_timed_join time return_value clk temp exit_value t =
       (Inl (Logic_error JOIN_DETACHED), t, [])"
  by (simp add: Thread_join_def Thread_try_join_def Thread_timed_join_def)

lemma Thread_join_not_running:
  "detachstate t = JOINABLE \<Longrightarrow> \<not> running t \<Longrightarrow>
   Thread_join return_value temp exit_value t = (Inl (Logic_error JOIN_NOT_STARTED), t, [])
   \<and> Thread_try_join return_value temp exit_value t = (Inl (Logic_error JOIN_NOT_STARTED), t, [])
   \<and> Thread_timed_join time return_value clk temp exit_value t =
       (Inl (Logic_error JOIN_NOT_STARTED), t, [])"
  by (simp add: Thread_join_def Thread_try_join_def Thread_timed_join_def)

lemma Thread_join_success:
  "detachstate t = JOINABLE \<Longrightarrow> running t \<Longrightarrow>
   Thread_join return_value 0 exit_value t =
     (Inr (stored return_value exit_value), t\<lparr>running := False\<rparr>,
      [(Pthread_join (thread_id t), t)])"
  by (simp add: Thread_join_def sysexcept_def)

lemma Thread_try_join_success:
  "detachstate t = JOINABLE \<Longrightarrow> running t \<Longrightarrow>
   Thread_try_join return_value 0 exit_value t =
     (Inr (True, stored return_value exit_value), t\<lparr>running := False\<rparr>,
      [(Pthread_tryjoin_np (thread_id t), t)])"
  by (simp add: Thread_try_join_def Let_def)

lemma Thread_try_join_busy:
  "detachstate t = JOINABLE \<Longrightarrow> running t \<Longrightarrow>
   Thread_try_join return_value EBUSY exit_value t =
     (Inr (False, None), t, [(Pthread_tryjoin_np (thread_id t), t)])"
  by (simp add: Thread_try_join_def Let_def EBUSY_def)

lemma Thread_try_join_never_suspends:
  "\<forall>call \<in> set (snd (snd (Thread_try_join return_value temp exit_value t))).
     \<not> suspends (fst call)"
  by (simp add: Thread_try_join_def Let_def sysexcept_def)

lemma Thread_timed_join_success:
  "detachstate t = JOINABLE \<Longrightarrow> running t \<Longrightarrow> 0 \<le> tv_sec time \<Longrightarrow> 0 \<le> tv_nsec time \<Longrightarrow> tv_nsec time < NSEC_PER_SEC \<Longrightarrow>
   gtod_ret clk = 0 \<Longrightarrow>
   Thread_timed_join time return_value clk 0 exit_value t =
     (Inr (True, stored return_value exit_value), t\<lparr>running := False\<rparr>,
      [(Gettimeofday, t),
       (Pthread_timedjoin_np (thread_id t) (add_timeout time (current_time clk)), t)])"
  by (simp add: Thread_timed_join_def Let_def sysexcept_def not_less not_le)

lemma Thread_timed_join_expired:
  "detachstate t = JOINABLE \<Longrightarrow> running t \<Longrightarrow> 0 \<le> tv_sec time \<Longrightarrow> 0 \<le> tv_nsec time \<Longrightarrow> tv_nsec time < NSEC_PER_SEC \<Longrightarrow>
   gtod_ret clk = 0 \<Longrightarrow>
   Thread_timed_join time return_value clk ETIMEDOUT exit_value t =
     (Inr (False, None), t,
      [(Gettimeofday, t),
       (Pthread_timedjoin_np (thread_id t) (add_timeout time (current_time clk)), t)])"
  by (simp add: Thread_timed_join_def Let_def sysexcept_def ETIMEDOUT_def
      not_less not_le)


lemma Thread_ctor_not_started:
  "Thread_ctor function temp = Inr t \<Longrightarrow> \<not> running t \<and> detachstate t = JOINABLE"
  by (cases "temp = 0") (auto simp add: Thread_ctor_def sysexcept_def)

lemma stored_cases:
  "stored None exit_value = None" "stored (Some address) exit_value = Some exit_value"
  by (simp_all add: stored_def)

text \<open>
  Claim C9. On a detached thread \<open>join\<close>, \<open>try_join\<close> and \<open>timed_join\<close> throw the logic
  error "thread is detached"; on a joinable thread that is not running they throw the
  logic error "not started"; both before any native call and with the fields untouched.
  A thread just constructed and not started is such a thread, and so is a thread after a
  successful join of any of the three kinds: a second \<open>join\<close> throws "not started". On a
  joinable running thread \<open>try_join\<close> issues no call that suspends the caller, and when
  the native call answers \<open>EBUSY\<close> it returns false and changes nothing; \<open>timed_join\<close>
  with a valid time span and a readable clock returns false and changes nothing when
  the native call answers \<open>ETIMEDOUT\<close>. When the native call succeeds each of the three
  clears \<open>running\<close> and yields the exit value of the thread if an address for it was
  passed, and nothing if \<open>nullptr\<close> was.
\<close>

theorem Thread_join_contract:
  "(detachstate t = DETACHED \<longrightarrow>
      Thread_join return_value temp exit_value t = (Inl (Logic_error JOIN_DETACHED), t, [])
      \<and> Thread_try_join return_value temp exit_value t = (Inl (Logic_error JOIN_DETACHED), t, [])
      \<and> Thread_timed_join time return_value clk temp exit_value t =
          (Inl (Logic_error JOIN_DETACHED), t, []))
   \<and> (detachstate t = JOINABLE \<and> \<not> running t \<longrightarrow>
      Thread_join return_value temp exit_value t = (Inl (Logic_error JOIN_NOT_STARTED), t, [])
      \<and> Thread_try_join return_value temp exit_value t =
          (Inl (Logic_error JOIN_NOT_STARTED), t, [])
      \<and> Thread_timed_join time return_value clk temp exit_value t =
          (Inl (Logic_error JOIN_NOT_STARTED), t, []))
   \<and> (\<forall>t0. Thread_ctor entry temp0 = Inr t0 \<longrightarrow>
        fst (Thread_join return_value temp exit_value t0) = Inl (Logic_error JOIN_NOT_STARTED))
   \<and> (detachstate t = JOINABLE \<and> running t \<longrightarrow>
      Thread_join return_value 0 exit_value t =
        (Inr (stored return_value exit_value), t\<lparr>running := False\<rparr>,
         [(Pthread_join (thread_id t), t)])
      \<and> Thread_try_join return_value 0 exit_value t =
        (Inr (True, stored return_value exit_value), t\<lparr>running := False\<rparr>,
         [(Pthread_tryjoin_np (thread_id t), t)])
      \<and> fst (Thread_join return_value2 temp exit_value2 (t\<lparr>running := False\<rparr>)) =
          Inl (Logic_error JOIN_NOT_STARTED)
      \<and> Thread_try_join return_value EBUSY exit_value t =
          (Inr (False, None), t, [(Pthread_tryjoin_np (thread_id t), t)])
      \<and> (\<forall>call \<in> set (snd (snd (Thread_try_join return_value temp exit_value t))).
            \<not> suspends (fst call)))
   \<and> (detachstate t = JOINABLE \<and> running t
        \<and> 0 \<le> tv_sec time \<and> 0 \<le> tv_nsec time \<and> tv_nsec time < NSEC_PER_SEC
        \<and> gtod_ret clk = 0 \<longrightarrow>
      Thread_timed_join time return_value clk 0 exit_value t =
        (Inr (True, stored return_value exit_value), t\<lparr>running := False\<rparr>,
         [(Gettimeofday, t),
          (Pthread_timedjoin_np (thread_id t) (add_timeout time (current_time clk)), t)])
      \<and> Thread_timed_join time return_value clk ETIMEDOUT exit_value t =
        (Inr (False, None), t,
         [(Gettimeofday, t),
          (Pthread_timedjoin_np (thread_id t) (add_timeout time (current_time clk)), t)]))
   \<and> stored None exit_value = None
   \<and> stored (Some address) exit_value = Some exit_value"
proof (intro conjI impI allI)
  assume d: "detachstate t = DETACHED"
  show "Thread_join return_value temp exit_value t = (Inl (Logic_error JOIN_DETACHED), t, [])"
    and "Thread_try_join return_value temp exit_value t =
      (Inl (Logic_error JOIN_DETACHED), t, [])"
    and "Thread_timed_join time return_value clk temp exit_value t =
      (Inl (Logic_error JOIN_DETACHED), t, [])"
    using Thread_join_detached [OF d] by simp_all
next
  assume "detachstate t = JOINABLE \<and> \<not> running t"
  then have j: "detachstate t = JOINABLE" and n: "\<not> running t" by simp_all
  show "Thread_join return_value temp exit_value t =
      (Inl (Logic_error JOIN_NOT_STARTED), t, [])"
    and "Thread_try_join return_value temp exit_value t =
      (Inl (Logic_error JOIN_NOT_STARTED), t, [])"
    and "Thread_timed_join time return_value clk temp exit_value t =
      (Inl (Logic_error JOIN_NOT_STARTED), t, [])"
    using Thread_join_not_running [OF j n] by simp_all
next
  fix t0 assume "Thread_ctor entry temp0 = Inr t0"
  from Thread_ctor_not_started [OF this]
  show "fst (Thread_join return_value temp exit_value t0) = Inl (Logic_error JOIN_NOT_STARTED)"
    by (simp add: Thread_join_not_running)
next
  assume "detachstate t = JOINABLE \<and> running t"
  then have j: "detachstate t = JOINABLE" and r: "running t" by simp_all
  show "Thread_join return_value 0 exit_value t =
        (Inr (stored return_value exit_value), t\<lparr>running := False\<rparr>,
         [(Pthread_join (thread_id t), t)])"
    by (rule Thread_join_success [OF j r])
  show "Thread_try_join return_value 0 exit_value t =
        (Inr (True, stored return_value exit_value), t\<lparr>running := False\<rparr>,
         [(Pthread_tryjoin_np (thread_id t), t)])"
    by (rule Thread_try_join_success [OF j r])
  show "fst (Thread_join return_value2 temp exit_value2 (t\<lparr>running := False\<rparr>)) =
          Inl (Logic_error JOIN_NOT_STARTED)"
    using j by (simp add: Thread_join_not_running)
  show "Thread_try_join return_value EBUSY exit_value t =
          (Inr (False, None), t, [(Pthread_tryjoin_np (thread_id t), t)])"
    by (rule Thread_try_join_busy [OF j r])
  show "\<forall>call \<in> set (snd (snd (Thread_try_join return_value temp exit_value t))).
            \<not> suspends (fst call)"
    by (rule Thread_try_join_never_suspends)
next
  assume "detachstate t = JOINABLE \<and> running t
        \<and> 0 \<le> tv_sec time \<and> 0 \<le> tv_nsec time \<and> tv_nsec time < NSEC_PER_SEC
        \<and> gtod_ret clk = 0"
  then have *: "detachstate t = JOINABLE" "running t" "0 \<le> tv_sec time" "0 \<le> tv_nsec time"
    "tv_nsec time < NSEC_PER_SEC" "gtod_ret clk = 0" by simp_all
  show "Thread_timed_join time return_value clk 0 exit_value t =
        (Inr (True, stored return_value exit_value), t\<lparr>running := False\<rparr>,
         [(Gettimeofday, t),
          (Pthread_timedjoin_np (thread_id t) (add_timeout time (current_time clk)), t)])"
    by (rule Thread_timed_join_success [OF *])
  show "Thread_timed_join time return_value clk ETIMEDOUT exit_value t =
        (Inr (False, None), t,
         [(Gettimeofday, t),
          (Pthread_timedjoin_np (thread_id t) (add_timeout time (current_time clk)), t)])"
    by (rule Thread_timed_join_expired [OF *])
next
  show "stored None exit_value = None" by (rule stored_cases)
  show "stored (Some address) exit_value = Some exit_value" by (rule stored_cases)
qed

text \<open>The contract at a run: thread 5 is running and joinable. \<open>join\<close> with an address
  yields the exit value 42 and clears \<open>running\<close>; a second \<open>join\<close> throws; \<open>try_join\<close>
  answered \<open>EBUSY\<close> returns false; \<open>timed_join\<close> for 1.5 s at the time 100.6 s waits
  until 102.1 s and returns false when it is answered \<open>ETIMEDOUT\<close>; \<open>join\<close> on the
  thread once detached throws, and so does \<open>join\<close> on a thread just constructed.\<close>

theorem Thread_join_contract_witness:
  "Thread_join (Some (8192 :: 64 word)) 0 42
     \<lparr>thread_id = 5, funcion = 4096, running = True, detachstate = JOINABLE, arguments = 0\<rparr> =
     (Inr (Some 42),
      \<lparr>thread_id = 5, funcion = 4096, running = False, detachstate = JOINABLE, arguments = 0\<rparr>,
      [(Pthread_join 5,
        \<lparr>thread_id = 5, funcion = 4096, running = True, detachstate = JOINABLE,
          arguments = 0\<rparr>)])
   \<and> fst (Thread_join None 0 0
       \<lparr>thread_id = 5, funcion = 4096, running = False, detachstate = JOINABLE, arguments = 0\<rparr>) =
     Inl (Logic_error JOIN_NOT_STARTED)
   \<and> fst (Thread_try_join None EBUSY 0
       \<lparr>thread_id = 5, funcion = 4096, running = True, detachstate = JOINABLE, arguments = 0\<rparr>) =
     Inr (False, None)
   \<and> Thread_timed_join \<lparr>tv_sec = 1, tv_nsec = 500000000\<rparr> None
       \<lparr>gtod_ret = 0, gtod_errno = 0, current_time = \<lparr>tvl_sec = 100, tv_usec = 600000\<rparr>\<rparr>
       ETIMEDOUT 0
       \<lparr>thread_id = 5, funcion = 4096, running = True, detachstate = JOINABLE, arguments = 0\<rparr> =
     (Inr (False, None),
      \<lparr>thread_id = 5, funcion = 4096, running = True, detachstate = JOINABLE, arguments = 0\<rparr>,
      [(Gettimeofday,
        \<lparr>thread_id = 5, funcion = 4096, running = True, detachstate = JOINABLE,
          arguments = 0\<rparr>),
       (Pthread_timedjoin_np 5 \<lparr>tv_sec = 102, tv_nsec = 100000000\<rparr>,
        \<lparr>thread_id = 5, funcion = 4096, running = True, detachstate = JOINABLE,
          arguments = 0\<rparr>)])
   \<and> fst (Thread_join None 0 0
       \<lparr>thread_id = 5, funcion = 4096, running = True, detachstate = DETACHED, arguments = 0\<rparr>) =
     Inl (Logic_error JOIN_DETACHED)
   \<and> Thread_ctor 4096 0 =
       Inr \<lparr>thread_id = 0, funcion = 4096, running = False, detachstate = JOINABLE,
            arguments = 0\<rparr>
   \<and> fst (Thread_join None 0 0
       \<lparr>thread_id = 0, funcion = 4096, running = False, detachstate = JOINABLE, arguments = 0\<rparr>) =
     Inl (Logic_error JOIN_NOT_STARTED)"
proof -
  let ?run = "\<lparr>thread_id = 5, funcion = 4096, running = True, detachstate = JOINABLE,
    arguments = 0\<rparr>"
  let ?det = "\<lparr>thread_id = 5, funcion = 4096, running = True, detachstate = DETACHED,
    arguments = 0\<rparr>"
  let ?new = "\<lparr>thread_id = 0, funcion = 4096, running = False, detachstate = JOINABLE,
    arguments = 0\<rparr>"
  let ?span = "\<lparr>tv_sec = 1, tv_nsec = 500000000\<rparr>"
  let ?clk = "\<lparr>gtod_ret = 0, gtod_errno = 0, current_time = \<lparr>tvl_sec = 100, tv_usec = 600000\<rparr>\<rparr>"
  have ctor: "Thread_ctor 4096 0 = Inr ?new"
    by (simp add: Thread_ctor_def sysexcept_def)
  have deadline: "add_timeout ?span (current_time ?clk) = \<lparr>tv_sec = 102, tv_nsec = 100000000\<rparr>"
    by (simp add: add_timeout_def Let_def NSEC_PER_SEC_def NSEC_PER_USEC_def)
  note a = Thread_join_contract [where t = ?run and return_value = "Some (8192 :: 64 word)"
      and temp = 0 and exit_value = 42 and time = ?span and clk = ?clk and entry = 4096
      and ?temp0.0 = 0 and ?return_value2.0 = None and ?exit_value2.0 = 0
      and address = "8192 :: 64 word"]
  note b = Thread_join_contract [where t = ?run and return_value = "None :: 64 word option"
      and temp = 0 and exit_value = 0 and time = ?span and clk = ?clk and entry = 4096
      and ?temp0.0 = 0 and ?return_value2.0 = None and ?exit_value2.0 = 0
      and address = "8192 :: 64 word"]
  note c = Thread_join_contract [where t = ?det and return_value = "None :: 64 word option"
      and temp = 0 and exit_value = 0 and time = ?span and clk = ?clk and entry = 4096
      and ?temp0.0 = 0 and ?return_value2.0 = None and ?exit_value2.0 = 0
      and address = "8192 :: 64 word"]
  from a have "Thread_join (Some (8192 :: 64 word)) 0 42 ?run =
      (Inr (Some 42), ?run\<lparr>running := False\<rparr>, [(Pthread_join (thread_id ?run), ?run)])"
    by (elim conjE) (simp add: stored_def)
  moreover from a have
    "fst (Thread_join None 0 0 (?run\<lparr>running := False\<rparr>)) = Inl (Logic_error JOIN_NOT_STARTED)"
    by (elim conjE) simp
  moreover from b have "fst (Thread_try_join None EBUSY 0 ?run) = Inr (False, None)"
    by (elim conjE) simp
  moreover from b deadline have "Thread_timed_join ?span None ?clk ETIMEDOUT 0 ?run =
      (Inr (False, None), ?run,
       [(Gettimeofday, ?run),
        (Pthread_timedjoin_np (thread_id ?run) \<lparr>tv_sec = 102, tv_nsec = 100000000\<rparr>, ?run)])"
    by (elim conjE) (simp add: NSEC_PER_SEC_def)
  moreover from c have "fst (Thread_join None 0 0 ?det) = Inl (Logic_error JOIN_DETACHED)"
    by (elim conjE) simp
  moreover from b ctor have "fst (Thread_join None 0 0 ?new) = Inl (Logic_error JOIN_NOT_STARTED)"
    by (elim conjE) simp
  ultimately show ?thesis using ctor by simp
qed

section \<open>Semaphore: construction\<close>

lemma Semaphore_ctor_zero:
  "Semaphore_ctor 0 ret errno indeterminate = (Inl (Invalid_argument ZERO_MAX_VALUE), [])"
  by (simp add: Semaphore_ctor_def)

lemma Semaphore_ctor_alt_zero:
  "Semaphore_ctor_alt 0 ret errno indeterminate = (Inl (Logic_error ZERO_MAX_VALUE), [])"
  by (simp add: Semaphore_ctor_alt_def)

lemma Semaphore_ctor_positive:
  "0 < val \<Longrightarrow>
   Semaphore_ctor val ret errno indeterminate =
     (if ret = 0
      then (Inr \<lparr>locking_threads = Map.empty, max_value = val,
                 current_value = indeterminate, thread_queue = 0\<rparr>, [Sem_init val])
      else (Inl (System_error ''sem_init'' errno), [Sem_init val]))"
  by (auto simp add: Semaphore_ctor_def sysexcept_def)

lemma Semaphore_ctor_alt_positive:
  "0 < val \<Longrightarrow>
   Semaphore_ctor_alt val ret errno indeterminate =
     (if ret = 0
      then (Inr \<lparr>locking_threads = Map.empty, max_value = val,
                 current_value = indeterminate, thread_queue = 0\<rparr>, [Sem_init val])
      else (Inl (System_error ''sem_init'' errno), [Sem_init val]))"
  by (auto simp add: Semaphore_ctor_alt_def sysexcept_def)

text \<open>
  Claim C4, as the sources have it. In both copies the construction of a semaphore with
  the maximum value 0 fails before any native call; the constructor of
  \<open>src/unnamed/part_008\<close> throws \<open>std::invalid_argument\<close>. In both copies the
  construction with a maximum value greater than 0 issues \<open>sem_init\<close> with that value
  and succeeds exactly when the native call does: then the maximum value is stored, the
  queue is empty and no thread holds the semaphore; when \<open>sem_init\<close> fails a system
  error is thrown.
\<close>

theorem Semaphore_ctor_contract:
  "Semaphore_ctor 0 ret errno indeterminate = (Inl (Invalid_argument ZERO_MAX_VALUE), [])
   \<and> isl (fst (Semaphore_ctor_alt 0 ret errno indeterminate))
   \<and> snd (Semaphore_ctor_alt 0 ret errno indeterminate) = []
   \<and> (0 < val \<and> ret = 0 \<longrightarrow>
        Semaphore_ctor val ret errno indeterminate =
          (Inr \<lparr>locking_threads = Map.empty, max_value = val,
                current_value = indeterminate, thread_queue = 0\<rparr>, [Sem_init val])
        \<and> Semaphore_ctor_alt val ret errno indeterminate =
          (Inr \<lparr>locking_threads = Map.empty, max_value = val,
                current_value = indeterminate, thread_queue = 0\<rparr>, [Sem_init val]))
   \<and> (0 < val \<and> ret \<noteq> 0 \<longrightarrow>
        Semaphore_ctor val ret errno indeterminate =
          (Inl (System_error ''sem_init'' errno), [Sem_init val])
        \<and> Semaphore_ctor_alt val ret errno indeterminate =
          (Inl (System_error ''sem_init'' errno), [Sem_init val]))"
  by (simp add: Semaphore_ctor_zero Semaphore_ctor_alt_zero Semaphore_ctor_positive
      Semaphore_ctor_alt_positive)

text \<open>The contract at three constructions with each copy: with 0; with 3 and a
  successful \<open>sem_init\<close>; with 3000000000, more than \<open>SEM_VALUE_MAX\<close>, which \<open>sem_init\<close>
  refuses.\<close>

theorem Semaphore_ctor_contract_witness:
  "Semaphore_ctor 0 0 0 0 = (Inl (Invalid_argument ZERO_MAX_VALUE), [])
   \<and> snd (Semaphore_ctor_alt 0 0 0 0) = []
   \<and> Semaphore_ctor 3 0 0 0 =
       (Inr \<lparr>locking_threads = Map.empty, max_value = 3, current_value = 0, thread_queue = 0\<rparr>,
        [Sem_init 3])
   \<and> Semaphore_ctor_alt 3 0 0 0 =
       (Inr \<lparr>locking_threads = Map.empty, max_value = 3, current_value = 0, thread_queue = 0\<rparr>,
        [Sem_init 3])
   \<and> Semaphore_ctor 3000000000 (- 1) EINVAL 0 =
       (Inl (System_error ''sem_init'' EINVAL), [Sem_init 3000000000])
   \<and> Semaphore_ctor_alt 3000000000 (- 1) EINVAL 0 =
       (Inl (System_error ''sem_init'' EINVAL), [Sem_init 3000000000])"
  using Semaphore_ctor_contract [of 0 0 0 3]
    Semaphore_ctor_contract [of "- 1" EINVAL 0 3000000000]
  by simp

text \<open>Claim C4 as the spec words it has every construction with a maximum value greater
  than 0 succeed. This one does not: the value is greater than 0, \<open>sem_init\<close> refuses it,
  and the constructor throws.\<close>

theorem Semaphore_ctor_positive_fails_counterexample:
  "(0 :: uint) < 3000000000
   \<and> fst (Semaphore_ctor 3000000000 (- 1) EINVAL 0) = Inl (System_error ''sem_init'' EINVAL)"
  by (simp add: Semaphore_ctor_def sysexcept_def)

section \<open>Semaphore: acquisition and release\<close>

lemma subscript_holds:
  "subscript (locking_threads s) thread =
     (holds s thread,
      (if locking_threads s thread = None then (locking_threads s)(thread \<mapsto> False)
       else locking_threads s))"
  by (auto simp add: subscript_def holds_def split: option.splits)

lemma looked_up_fields:
  "max_value (looked_up thread s) = max_value s"
  "current_value (looked_up thread s) = current_value s"
  "thread_queue (looked_up thread s) = thread_queue s"
  "holds (looked_up thread s) t = holds s t"
  by (auto simp add: looked_up_def subscript_holds holds_def)

lemma looked_up_present:
  "locking_threads s thread \<noteq> None \<Longrightarrow> looked_up thread s = s"
  by (auto simp add: looked_up_def subscript_holds)

lemma Semaphore_wait_cases:
  "Semaphore_wait thread ret errno s =
    (if holds s thread then (Inl (Logic_error DOUBLE_WAIT), looked_up thread s, [])
     else
       let s1 = (looked_up thread s)\<lparr>thread_queue := thread_queue s + 1\<rparr> in
       if ret \<noteq> 0 then (Inl (System_error ''sem_wait'' errno), s1, [(Sem_wait, s1)])
       else (Inr (), acquired thread s1, [(Sem_wait, s1)]))"
  by (simp add: Semaphore_wait_def looked_up_def subscript_holds sysexcept_def Let_def)

lemma Semaphore_trywait_cases:
  "Semaphore_trywait thread temp errno s =
    (if holds s thread then (Inl (Logic_error DOUBLE_WAIT), looked_up thread s, [])
     else
       let s1 = (looked_up thread s)\<lparr>thread_queue := thread_queue s + 1\<rparr> in
       if temp \<noteq> 0 \<and> errno = EAGAIN
       then (Inr False, s1\<lparr>thread_queue := thread_queue s1 - 1\<rparr>, [(Sem_wait, s1)])
       else if temp \<noteq> 0 then (Inl (System_error ''sem_wait'' errno), s1, [(Sem_wait, s1)])
       else (Inr True, acquired thread s1, [(Sem_wait, s1)]))"
  by (simp add: Semaphore_trywait_def looked_up_def subscript_holds sysexcept_def Let_def)

lemma pthread_timeout_cases:
  "pthread_timeout ts clk =
    (if tv_sec ts < 0 \<or> tv_nsec ts < 0 \<or> tv_nsec ts \<ge> NSEC_PER_SEC
     then (Inl (Invalid_argument INVALID_TIMESPEC), [])
     else if gtod_ret clk \<noteq> 0
     then (Inl (System_error ''gettimeofday'' (gtod_errno clk)), [Gettimeofday])
     else (Inr (add_timeout ts (current_time clk)), [Gettimeofday]))"
  by (simp add: pthread_timeout_def sysexcept_def)

lemma Semaphore_timedwait_cases:
  "Semaphore_timedwait thread time clk temp errno s =
    (if holds s thread then (Inl (Logic_error DOUBLE_WAIT), looked_up thread s, [])
     else if tv_sec time < 0 \<or> tv_nsec time < 0 \<or> tv_nsec time \<ge> NSEC_PER_SEC
     then (Inl (Invalid_argument INVALID_TIMESPEC), looked_up thread s, [])
     else if gtod_ret clk \<noteq> 0
     then (Inl (System_error ''gettimeofday'' (gtod_errno clk)), looked_up thread s,
           [(Gettimeofday, looked_up thread s)])
     else
       let s1 = (looked_up thread s)\<lparr>thread_queue := thread_queue s + 1\<rparr>;
           calls = [(Gettimeofday, looked_up thread s),
                    (Sem_timedwait (add_timeout time (current_time clk)), s1)]
       in
       if temp \<noteq> 0 \<and> errno = ETIMEDOUT
       then (Inr False, s1\<lparr>thread_queue := thread_queue s1 - 1\<rparr>, calls)
       else if temp \<noteq> 0 then (Inl (System_error ''sem_wait'' errno), s1, calls)
       else (Inr True, acquired thread s1, calls))"
  by (simp add: Semaphore_timedwait_def looked_up_def subscript_holds sysexcept_def Let_def
      pthread_timeout_cases stamp_def)

lemma Semaphore_wait_queue:
  "thread_queue (fst (snd (Semaphore_wait thread ret errno s))) =
     (if \<not> holds s thread \<and> ret \<noteq> 0 then thread_queue s + 1 else thread_queue s)"
  by (simp add: Semaphore_wait_cases Let_def acquired_def looked_up_fields)

lemma Semaphore_trywait_queue:
  "thread_queue (fst (snd (Semaphore_trywait thread temp errno s))) =
     (if \<not> holds s thread \<and> temp \<noteq> 0 \<and> errno \<noteq> EAGAIN then thread_queue s + 1
      else thread_queue s)"
  by (simp add: Semaphore_trywait_cases Let_def acquired_def looked_up_fields)

lemma Semaphore_timedwait_queue:
  "thread_queue (fst (snd (Semaphore_timedwait thread time clk temp errno s))) =
     (if \<not> holds s thread
         \<and> \<not> (tv_sec time < 0 \<or> tv_nsec time < 0 \<or> tv_nsec time \<ge> NSEC_PER_SEC)
         \<and> gtod_ret clk = 0 \<and> temp \<noteq> 0 \<and> errno \<noteq> ETIMEDOUT
      then thread_queue s + 1 else thread_queue s)"
  by (simp add: Semaphore_timedwait_cases Let_def acquired_def looked_up_fields)

lemma Semaphore_wait_error:
  "fst (Semaphore_wait thread ret errno s) = Inl e \<Longrightarrow>
   (holds s thread \<and> e = Logic_error DOUBLE_WAIT
      \<and> snd (snd (Semaphore_wait thread ret errno s)) = [])
   \<or> (\<not> holds s thread \<and> ret \<noteq> 0 \<and> e = System_error ''sem_wait'' errno)"
  by (auto simp add: Semaphore_wait_cases Let_def split: if_splits)

lemma Semaphore_trywait_error:
  "fst (Semaphore_trywait thread temp errno s) = Inl e \<Longrightarrow>
   (holds s thread \<and> e = Logic_error DOUBLE_WAIT
      \<and> snd (snd (Semaphore_trywait thread temp errno s)) = [])
   \<or> (\<not> holds s thread \<and> temp \<noteq> 0 \<and> errno \<noteq> EAGAIN \<and> e = System_error ''sem_wait'' errno)"
  by (auto simp add: Semaphore_trywait_cases Let_def split: if_splits)

lemma Semaphore_timedwait_error:
  "fst (Semaphore_timedwait thread time clk temp errno s) = Inl e \<Longrightarrow>
   (e = Logic_error DOUBLE_WAIT \<or> e = Invalid_argument INVALID_TIMESPEC
      \<or> e = System_error ''gettimeofday'' (gtod_errno clk))
     \<and> thread_queue (fst (snd (Semaphore_timedwait thread time clk temp errno s))) =
         thread_queue s
   \<or> e = System_error ''sem_wait'' errno
     \<and> thread_queue (fst (snd (Semaphore_timedwait thread time clk temp errno s))) =
         thread_queue s + 1"
  by (auto simp add: Semaphore_timedwait_cases Let_def looked_up_fields split: if_splits)

lemma Semaphore_post_cases:
  "Semaphore_post thread ret errno s =
    (if \<not> holds s thread then (Inl (Logic_error POST_NOT_HELD), looked_up thread s, [])
     else if ret \<noteq> 0 then (Inl (System_error ''sem_post'' errno), s, [(Sem_post, s)])
     else (Inr (), s\<lparr>current_value := current_value s - 1,
                      locking_threads := (locking_threads s)(thread \<mapsto> False)\<rparr>,
           [(Sem_post, s)]))"
  by (auto simp add: Semaphore_post_def subscript_holds looked_up_def sysexcept_def Let_def
      holds_def)

lemma Semaphore_post_alt_cases:
  "Semaphore_post_alt thread ret errno s =
    (if \<not> holds s thread then (Inl (Logic_error POST_NOT_HELD), looked_up thread s, [])
     else if ret \<noteq> 0 then (Inl (System_error ''sem_post'' errno), s, [(Sem_post, s)])
     else (Inr (), s\<lparr>current_value := current_value s + 1,
                      locking_threads := (locking_threads s)(thread \<mapsto> False)\<rparr>,
           [(Sem_post, s)]))"
  by (auto simp add: Semaphore_post_alt_def subscript_holds looked_up_def sysexcept_def Let_def
      holds_def)

lemma Semaphore_double_wait:
  "holds s thread \<Longrightarrow>
   fst (Semaphore_wait thread ret errno s) = Inl (Logic_error DOUBLE_WAIT)
   \<and> snd (snd (Semaphore_wait thread ret errno s)) = []
   \<and> fst (Semaphore_trywait thread ret errno s) = Inl (Logic_error DOUBLE_WAIT)
   \<and> snd (snd (Semaphore_trywait thread ret errno s)) = []
   \<and> fst (Semaphore_timedwait thread time clk ret errno s) = Inl (Logic_error DOUBLE_WAIT)
   \<and> snd (snd (Semaphore_timedwait thread time clk ret errno s)) = []"
  by (simp add: Semaphore_wait_cases Semaphore_trywait_cases Semaphore_timedwait_cases)

lemma Semaphore_timedwait_invalid:
  "\<not> holds s thread \<Longrightarrow> tv_sec time < 0 \<or> tv_nsec time < 0 \<or> tv_nsec time \<ge> NSEC_PER_SEC \<Longrightarrow>
   fst (Semaphore_timedwait thread time clk ret errno s) = Inl (Invalid_argument INVALID_TIMESPEC)
   \<and> snd (snd (Semaphore_timedwait thread time clk ret errno s)) = []"
  by (simp add: Semaphore_timedwait_cases)

lemma after_call_queue:
  "thread_queue (after_call call s) =
     thread_queue s + (if acquire_failed call s then 1 else 0)"
proof (cases call)
  case (Wait thread ret errno)
  then show ?thesis
    by (simp add: Semaphore_wait_queue) (simp add: Semaphore_wait_cases Let_def)
next
  case (Trywait thread temp errno)
  then show ?thesis
    by (simp add: Semaphore_trywait_queue) (simp add: Semaphore_trywait_cases Let_def)
next
  case (Timedwait thread time clk temp errno)
  then show ?thesis
    by (simp add: Semaphore_timedwait_queue) (simp add: Semaphore_timedwait_cases Let_def)
next
  case (Post thread ret errno)
  then show ?thesis by (simp add: Semaphore_post_cases looked_up_fields)
next
  case (Post_alt thread ret errno)
  then show ?thesis by (simp add: Semaphore_post_alt_cases looked_up_fields)
qed

lemma after_calls_queue:
  "thread_queue (after_calls calls s) = thread_queue s + of_nat (failed_acquisitions calls s)"
proof (induction calls arbitrary: s)
  case Nil
  show ?case by simp
next
  case (Cons call calls)
  have "thread_queue (after_calls (call # calls) s) =
      thread_queue (after_call call s) + of_nat (failed_acquisitions calls (after_call call s))"
    by (simp add: Cons.IH)
  also have "\<dots> = thread_queue s + (if acquire_failed call s then 1 else 0)
      + of_nat (failed_acquisitions calls (after_call call s))"
    by (simp only: after_call_queue)
  finally show ?case by simp
qed

text \<open>
  Claim C10. The clock is taken as readable (\<open>gtod_ret clk = 0\<close>) where the claim is
  about the errors of \<open>timedwait\<close>: \<open>pthread_timeout\<close> calls \<open>gettimeofday\<close> with the
  address of a local variable and no time zone, a call that does not fail.
  \<^item> When the calling thread does not hold the semaphore and the native acquisition
    fails for another reason than the expected one (\<open>EAGAIN\<close> for \<open>trywait\<close>,
    \<open>ETIMEDOUT\<close> for \<open>timedwait\<close>), each of \<open>wait\<close>, \<open>trywait\<close> and \<open>timedwait\<close> throws
    a system error and leaves \<open>thread_queue\<close> one above its value before the call, which
    is another value.
  \<^item> Whenever a variant returns, with true or with false, \<open>thread_queue\<close> is back at its
    value before the call.
  \<^item> The double wait in each variant, and the invalid time span in \<open>timedwait\<close>, are
    thrown before any native call and leave \<open>thread_queue\<close> at its value; and an
    exception that leaves \<open>thread_queue\<close> at its value is one of these two.
  \<^item> The increment stays: after any list of calls of the three variants and of
    \<open>post\<close>, \<open>thread_queue\<close> is its value before the calls plus the number of native
    acquisitions that failed so. No call takes an increment back.
\<close>

theorem Semaphore_queue_after_failure:
  "(\<not> holds s thread \<and> ret \<noteq> 0 \<longrightarrow>
      fst (Semaphore_wait thread ret errno s) = Inl (System_error ''sem_wait'' errno)
      \<and> thread_queue (fst (snd (Semaphore_wait thread ret errno s))) = thread_queue s + 1)
   \<and> (\<not> holds s thread \<and> ret \<noteq> 0 \<and> errno \<noteq> EAGAIN \<longrightarrow>
      fst (Semaphore_trywait thread ret errno s) = Inl (System_error ''sem_wait'' errno)
      \<and> thread_queue (fst (snd (Semaphore_trywait thread ret errno s))) = thread_queue s + 1)
   \<and> (\<not> holds s thread \<and> 0 \<le> tv_sec time \<and> 0 \<le> tv_nsec time \<and> tv_nsec time < NSEC_PER_SEC
        \<and> gtod_ret clk = 0 \<and> ret \<noteq> 0 \<and> errno \<noteq> ETIMEDOUT \<longrightarrow>
      fst (Semaphore_timedwait thread time clk ret errno s) =
        Inl (System_error ''sem_wait'' errno)
      \<and> thread_queue (fst (snd (Semaphore_timedwait thread time clk ret errno s))) =
          thread_queue s + 1)
   \<and> thread_queue s + 1 \<noteq> thread_queue s
   \<and> (\<forall>r. fst (Semaphore_wait thread ret errno s) = Inr r \<longrightarrow>
        thread_queue (fst (snd (Semaphore_wait thread ret errno s))) = thread_queue s)
   \<and> (\<forall>r. fst (Semaphore_trywait thread ret errno s) = Inr r \<longrightarrow>
        thread_queue (fst (snd (Semaphore_trywait thread ret errno s))) = thread_queue s)
   \<and> (\<forall>r. fst (Semaphore_timedwait thread time clk ret errno s) = Inr r \<longrightarrow>
        thread_queue (fst (snd (Semaphore_timedwait thread time clk ret errno s))) =
          thread_queue s)
   \<and> (holds s thread \<longrightarrow>
        fst (Semaphore_wait thread ret errno s) = Inl (Logic_error DOUBLE_WAIT)
        \<and> snd (snd (Semaphore_wait thread ret errno s)) = []
        \<and> fst (Semaphore_trywait thread ret errno s) = Inl (Logic_error DOUBLE_WAIT)
        \<and> snd (snd (Semaphore_trywait thread ret errno s)) = []
        \<and> fst (Semaphore_timedwait thread time clk ret errno s) = Inl (Logic_error DOUBLE_WAIT)
        \<and> snd (snd (Semaphore_timedwait thread time clk ret errno s)) = [])
   \<and> (\<not> holds s thread \<and> (tv_sec time < 0 \<or> tv_nsec time < 0 \<or> tv_nsec time \<ge> NSEC_PER_SEC)
        \<longrightarrow>
        fst (Semaphore_timedwait thread time clk ret errno s) =
          Inl (Invalid_argument INVALID_TIMESPEC)
        \<and> snd (snd (Semaphore_timedwait thread time clk ret errno s)) = [])
   \<and> (\<forall>e. fst (Semaphore_wait thread ret errno s) = Inl e
          \<and> thread_queue (fst (snd (Semaphore_wait thread ret errno s))) = thread_queue s \<longrightarrow>
        e = Logic_error DOUBLE_WAIT)
   \<and> (\<forall>e. fst (Semaphore_trywait thread ret errno s) = Inl e
          \<and> thread_queue (fst (snd (Semaphore_trywait thread ret errno s))) = thread_queue s \<longrightarrow>
        e = Logic_error DOUBLE_WAIT)
   \<and> (\<forall>e. gtod_ret clk = 0
          \<and> fst (Semaphore_timedwait thread time clk ret errno s) = Inl e
          \<and> thread_queue (fst (snd (Semaphore_timedwait thread time clk ret errno s))) =
              thread_queue s \<longrightarrow>
        e = Logic_error DOUBLE_WAIT \<or> e = Invalid_argument INVALID_TIMESPEC)
   \<and> thread_queue (after_calls calls s) =
       thread_queue s + of_nat (failed_acquisitions calls s)"
proof (intro conjI impI allI)
  show "thread_queue s + 1 \<noteq> thread_queue s" by simp
  show "thread_queue (after_calls calls s) =
       thread_queue s + of_nat (failed_acquisitions calls s)"
    by (rule after_calls_queue)
next
  assume "\<not> holds s thread \<and> ret \<noteq> 0"
  then show "fst (Semaphore_wait thread ret errno s) = Inl (System_error ''sem_wait'' errno)"
    and "thread_queue (fst (snd (Semaphore_wait thread ret errno s))) = thread_queue s + 1"
    by (simp_all add: Semaphore_wait_queue) (simp add: Semaphore_wait_cases Let_def)
next
  assume "\<not> holds s thread \<and> ret \<noteq> 0 \<and> errno \<noteq> EAGAIN"
  then show "fst (Semaphore_trywait thread ret errno s) = Inl (System_error ''sem_wait'' errno)"
    and "thread_queue (fst (snd (Semaphore_trywait thread ret errno s))) = thread_queue s + 1"
    by (simp_all add: Semaphore_trywait_queue) (simp add: Semaphore_trywait_cases Let_def)
next
  assume "\<not> holds s thread \<and> 0 \<le> tv_sec time \<and> 0 \<le> tv_nsec time \<and> tv_nsec time < NSEC_PER_SEC
        \<and> gtod_ret clk = 0 \<and> ret \<noteq> 0 \<and> errno \<noteq> ETIMEDOUT"
  then show "fst (Semaphore_timedwait thread time clk ret errno s) =
        Inl (System_error ''sem_wait'' errno)"
    and "thread_queue (fst (snd (Semaphore_timedwait thread time clk ret errno s))) =
          thread_queue s + 1"
    by (simp_all add: Semaphore_timedwait_queue not_less not_le)
       (simp add: Semaphore_timedwait_cases Let_def not_less not_le)
next
  fix r assume "fst (Semaphore_wait thread ret errno s) = Inr r"
  then show "thread_queue (fst (snd (Semaphore_wait thread ret errno s))) = thread_queue s"
    by (auto simp add: Semaphore_wait_cases Let_def acquired_def looked_up_fields
        split: if_splits)
next
  fix r assume "fst (Semaphore_trywait thread ret errno s) = Inr r"
  then show "thread_queue (fst (snd (Semaphore_trywait thread ret errno s))) = thread_queue s"
    by (auto simp add: Semaphore_trywait_cases Let_def acquired_def looked_up_fields
        split: if_splits)
next
  fix r assume "fst (Semaphore_timedwait thread time clk ret errno s) = Inr r"
  then show "thread_queue (fst (snd (Semaphore_timedwait thread time clk ret errno s))) =
      thread_queue s"
    by (auto simp add: Semaphore_timedwait_cases Let_def acquired_def looked_up_fields
        split: if_splits)
next
  assume h: "holds s thread"
  note d = Semaphore_double_wait [OF h, of ret errno time clk]
  from d show "fst (Semaphore_wait thread ret errno s) = Inl (Logic_error DOUBLE_WAIT)"
    and "snd (snd (Semaphore_wait thread ret errno s)) = []"
    and "fst (Semaphore_trywait thread ret errno s) = Inl (Logic_error DOUBLE_WAIT)"
    and "snd (snd (Semaphore_trywait thread ret errno s)) = []"
    and "fst (Semaphore_timedwait thread time clk ret errno s) = Inl (Logic_error DOUBLE_WAIT)"
    and "snd (snd (Semaphore_timedwait thread time clk ret errno s)) = []"
    by simp_all
next
  assume "\<not> holds s thread
      \<and> (tv_sec time < 0 \<or> tv_nsec time < 0 \<or> tv_nsec time \<ge> NSEC_PER_SEC)"
  then have n: "\<not> holds s thread"
    and i: "tv_sec time < 0 \<or> tv_nsec time < 0 \<or> tv_nsec time \<ge> NSEC_PER_SEC" by simp_all
  from Semaphore_timedwait_invalid [OF n i, of clk ret errno]
  show "fst (Semaphore_timedwait thread time clk ret errno s) =
          Inl (Invalid_argument INVALID_TIMESPEC)"
    and "snd (snd (Semaphore_timedwait thread time clk ret errno s)) = []"
    by simp_all
next
  fix e assume "fst (Semaphore_wait thread ret errno s) = Inl e
      \<and> thread_queue (fst (snd (Semaphore_wait thread ret errno s))) = thread_queue s"
  then show "e = Logic_error DOUBLE_WAIT"
    using Semaphore_wait_error [of thread ret errno s e]
    by (auto simp add: Semaphore_wait_queue)
next
  fix e assume "fst (Semaphore_trywait thread ret errno s) = Inl e
      \<and> thread_queue (fst (snd (Semaphore_trywait thread ret errno s))) = thread_queue s"
  then show "e = Logic_error DOUBLE_WAIT"
    using Semaphore_trywait_error [of thread ret errno s e]
    by (auto simp add: Semaphore_trywait_queue)
next
  fix e assume "gtod_ret clk = 0
      \<and> fst (Semaphore_timedwait thread time clk ret errno s) = Inl e
      \<and> thread_queue (fst (snd (Semaphore_timedwait thread time clk ret errno s))) =
          thread_queue s"
  then show "e = Logic_error DOUBLE_WAIT \<or> e = Invalid_argument INVALID_TIMESPEC"
    by (auto simp add: Semaphore_timedwait_cases Let_def looked_up_fields split: if_splits)
qed

text \<open>The contract at a semaphore of capacity 1 that nobody holds, with an empty queue.
  \<^item> Thread 1 calls and the native acquisition is interrupted (4 is \<open>EINTR\<close>), in each of
    the three variants: the queue is left at 1.
  \<^item> \<open>trywait\<close> answered \<open>EAGAIN\<close> and \<open>timedwait\<close> answered \<open>ETIMEDOUT\<close> return false
    and leave the queue at 0.
  \<^item> \<open>wait\<close> by a thread that holds the semaphore, and \<open>timedwait\<close> for a negative time
    span, throw with the queue untouched.
  \<^item> Thread 1 is interrupted in \<open>wait\<close>, then acquires and releases the semaphore,
    and thread 2 finds it contended: the queue is still at 1.\<close>

theorem Semaphore_queue_after_failure_witness:
  "fst (Semaphore_wait 1 (- 1) 4
       \<lparr>locking_threads = Map.empty, max_value = 1, current_value = 0, thread_queue = 0\<rparr>) =
     Inl (System_error ''sem_wait'' 4)
   \<and> thread_queue (fst (snd (Semaphore_wait 1 (- 1) 4
       \<lparr>locking_threads = Map.empty, max_value = 1, current_value = 0, thread_queue = 0\<rparr>))) = 1
   \<and> fst (Semaphore_trywait 1 (- 1) 4
       \<lparr>locking_threads = Map.empty, max_value = 1, current_value = 0, thread_queue = 0\<rparr>) =
     Inl (System_error ''sem_wait'' 4)
   \<and> thread_queue (fst (snd (Semaphore_trywait 1 (- 1) 4
       \<lparr>locking_threads = Map.empty, max_value = 1, current_value = 0, thread_queue = 0\<rparr>))) = 1
   \<and> fst (Semaphore_timedwait 1 \<lparr>tv_sec = 1, tv_nsec = 0\<rparr>
       \<lparr>gtod_ret = 0, gtod_errno = 0, current_time = \<lparr>tvl_sec = 100, tv_usec = 0\<rparr>\<rparr> (- 1) 4
       \<lparr>locking_threads = Map.empty, max_value = 1, current_value = 0, thread_queue = 0\<rparr>) =
     Inl (System_error ''sem_wait'' 4)
   \<and> thread_queue (fst (snd (Semaphore_timedwait 1 \<lparr>tv_sec = 1, tv_nsec = 0\<rparr>
       \<lparr>gtod_ret = 0, gtod_errno = 0, current_time = \<lparr>tvl_sec = 100, tv_usec = 0\<rparr>\<rparr> (- 1) 4
       \<lparr>locking_threads = Map.empty, max_value = 1, current_value = 0, thread_queue = 0\<rparr>))) = 1
   \<and> fst (Semaphore_trywait 1 (- 1) EAGAIN
       \<lparr>locking_threads = Map.empty, max_value = 1, current_value = 0, thread_queue = 0\<rparr>) =
     Inr False
   \<and> thread_queue (fst (snd (Semaphore_trywait 1 (- 1) EAGAIN
       \<lparr>locking_threads = Map.empty, max_value = 1, current_value = 0, thread_queue = 0\<rparr>))) = 0
   \<and> fst (Semaphore_timedwait 1 \<lparr>tv_sec = 1, tv_nsec = 0\<rparr>
       \<lparr>gtod_ret = 0, gtod_errno = 0, current_time = \<lparr>tvl_sec = 100, tv_usec = 0\<rparr>\<rparr>
       (- 1) ETIMEDOUT
       \<lparr>locking_threads = Map.empty, max_value = 1, current_value = 0, thread_queue = 0\<rparr>) =
     Inr False
   \<and> thread_queue (fst (snd (Semaphore_timedwait 1 \<lparr>tv_sec = 1, tv_nsec = 0\<rparr>
       \<lparr>gtod_ret = 0, gtod_errno = 0, current_time = \<lparr>tvl_sec = 100, tv_usec = 0\<rparr>\<rparr>
       (- 1) ETIMEDOUT
       \<lparr>locking_threads = Map.empty, max_value = 1, current_value = 0, thread_queue = 0\<rparr>))) = 0
   \<and> fst (Semaphore_wait 1 0 0
       \<lparr>locking_threads = [1 \<mapsto> True], max_value = 1, current_value = 1, thread_queue = 0\<rparr>) =
     Inl (Logic_error DOUBLE_WAIT)
   \<and> fst (Semaphore_timedwait 1 \<lparr>tv_sec = - 1, tv_nsec = 0\<rparr>
       \<lparr>gtod_ret = 0, gtod_errno = 0, current_time = \<lparr>tvl_sec = 100, tv_usec = 0\<rparr>\<rparr> 0 0
       \<lparr>locking_threads = Map.empty, max_value = 1, current_value = 0, thread_queue = 0\<rparr>) =
     Inl (Invalid_argument INVALID_TIMESPEC)
   \<and> thread_queue (after_calls
       [Wait 1 (- 1) 4, Wait 1 0 0, Post 1 0 0, Trywait 2 (- 1) EAGAIN]
       \<lparr>locking_threads = Map.empty, max_value = 1, current_value = 0, thread_queue = 0\<rparr>) = 1"
proof -
  let ?s = "\<lparr>locking_threads = Map.empty, max_value = 1, current_value = 0, thread_queue = 0\<rparr>"
  let ?h = "\<lparr>locking_threads = [1 \<mapsto> True], max_value = 1, current_value = 1,
    thread_queue = 0\<rparr>"
  let ?span = "\<lparr>tv_sec = 1, tv_nsec = 0\<rparr>"
  let ?neg = "\<lparr>tv_sec = - 1, tv_nsec = 0\<rparr>"
  let ?clk = "\<lparr>gtod_ret = 0, gtod_errno = 0, current_time = \<lparr>tvl_sec = 100, tv_usec = 0\<rparr>\<rparr>"
  let ?calls = "[Wait 1 (- 1) 4, Wait 1 0 0, Post 1 0 0, Trywait 2 (- 1) EAGAIN]"
  have free: "\<not> holds ?s 1" by (simp add: holds_def)
  have held: "holds ?h 1" by (simp add: holds_def)
  have try_false: "fst (Semaphore_trywait 1 (- 1) EAGAIN ?s) = Inr False"
    by (simp add: Semaphore_trywait_cases Let_def free)
  have timed_false: "fst (Semaphore_timedwait 1 ?span ?clk (- 1) ETIMEDOUT ?s) = Inr False"
    by (simp add: Semaphore_timedwait_cases Let_def free NSEC_PER_SEC_def)
  have one: "failed_acquisitions ?calls ?s = 1"
    by (simp add: Semaphore_wait_cases Semaphore_trywait_cases Semaphore_post_cases holds_def
        looked_up_def subscript_def acquired_def Let_def)
  note interrupted = Semaphore_queue_after_failure [where s = ?s and thread = 1 and ret = "- 1"
      and errno = 4 and time = ?span and clk = ?clk and calls = "[]"]
  note contended = Semaphore_queue_after_failure [where s = ?s and thread = 1 and ret = "- 1"
      and errno = EAGAIN and time = ?span and clk = ?clk and calls = "[]"]
  note expired = Semaphore_queue_after_failure [where s = ?s and thread = 1 and ret = "- 1"
      and errno = ETIMEDOUT and time = ?span and clk = ?clk and calls = "[]"]
  note double = Semaphore_queue_after_failure [where s = ?h and thread = 1 and ret = 0
      and errno = 0 and time = ?span and clk = ?clk and calls = "[]"]
  note invalid = Semaphore_queue_after_failure [where s = ?s and thread = 1 and ret = 0
      and errno = 0 and time = ?neg and clk = ?clk and calls = "[]"]
  note run = Semaphore_queue_after_failure [where s = ?s and thread = 1 and ret = 0
      and errno = 0 and time = ?span and clk = ?clk and calls = ?calls]
  have negative: "\<not> holds ?s 1
      \<and> (tv_sec ?neg < 0 \<or> tv_nsec ?neg < 0 \<or> tv_nsec ?neg \<ge> NSEC_PER_SEC)"
    by (simp add: free)
  from interrupted free have "fst (Semaphore_wait 1 (- 1) 4 ?s) = Inl (System_error ''sem_wait'' 4)"
    and "thread_queue (fst (snd (Semaphore_wait 1 (- 1) 4 ?s))) = 1"
    and "fst (Semaphore_trywait 1 (- 1) 4 ?s) = Inl (System_error ''sem_wait'' 4)"
    and "thread_queue (fst (snd (Semaphore_trywait 1 (- 1) 4 ?s))) = 1"
    and "fst (Semaphore_timedwait 1 ?span ?clk (- 1) 4 ?s) = Inl (System_error ''sem_wait'' 4)"
    and "thread_queue (fst (snd (Semaphore_timedwait 1 ?span ?clk (- 1) 4 ?s))) = 1"
    by (simp_all add: EAGAIN_def ETIMEDOUT_def NSEC_PER_SEC_def)
  moreover from contended try_false
  have "thread_queue (fst (snd (Semaphore_trywait 1 (- 1) EAGAIN ?s))) = thread_queue ?s"
    by (elim conjE) blast
  moreover from expired timed_false
  have "thread_queue (fst (snd (Semaphore_timedwait 1 ?span ?clk (- 1) ETIMEDOUT ?s))) =
      thread_queue ?s"
    by (elim conjE) blast
  moreover from double held
  have "fst (Semaphore_wait 1 0 0 ?h) = Inl (Logic_error DOUBLE_WAIT)"
    by (elim conjE) blast
  moreover from invalid negative
  have "fst (Semaphore_timedwait 1 ?neg ?clk 0 0 ?s) = Inl (Invalid_argument INVALID_TIMESPEC)"
    by (elim conjE) blast
  moreover from run one
  have "thread_queue (after_calls ?calls ?s) = 1"
    by (elim conjE) simp
  ultimately show ?thesis using try_false timed_false by simp
qed

text \<open>What the embedding gives for a clock that could not be read (14 is \<open>EFAULT\<close>):
  \<open>timedwait\<close> throws the system error of \<open>gettimeofday\<close> with the queue untouched and
  no native acquisition issued.\<close>

lemma Semaphore_timedwait_unreadable_clock:
  "fst (Semaphore_timedwait 1 \<lparr>tv_sec = 1, tv_nsec = 0\<rparr>
       \<lparr>gtod_ret = - 1, gtod_errno = 14, current_time = \<lparr>tvl_sec = 0, tv_usec = 0\<rparr>\<rparr> 0 0
       \<lparr>locking_threads = Map.empty, max_value = 1, current_value = 0, thread_queue = 0\<rparr>) =
     Inl (System_error ''gettimeofday'' 14)
   \<and> thread_queue (fst (snd (Semaphore_timedwait 1 \<lparr>tv_sec = 1, tv_nsec = 0\<rparr>
       \<lparr>gtod_ret = - 1, gtod_errno = 14, current_time = \<lparr>tvl_sec = 0, tv_usec = 0\<rparr>\<rparr> 0 0
       \<lparr>locking_threads = Map.empty, max_value = 1, current_value = 0, thread_queue = 0\<rparr>))) = 0
   \<and> map fst (snd (snd (Semaphore_timedwait 1 \<lparr>tv_sec = 1, tv_nsec = 0\<rparr>
       \<lparr>gtod_ret = - 1, gtod_errno = 14, current_time = \<lparr>tvl_sec = 0, tv_usec = 0\<rparr>\<rparr> 0 0
       \<lparr>locking_threads = Map.empty, max_value = 1, current_value = 0, thread_queue = 0\<rparr>))) =
     [Gettimeofday]"
  by (simp add: Semaphore_timedwait_cases holds_def NSEC_PER_SEC_def looked_up_fields)

text \<open>\<open>Semaphore::post\<close> of \<open>src/unnamed/part_008\<close> does what the spec says of a release: called by a
  thread that holds the semaphore it issues \<open>sem_post\<close>, and when that succeeds the
  current value is one less and the thread holds the semaphore no more; called by a
  thread that does not hold it, it throws before any native call, and the maximum, the
  current value, the queue and the holders are what they were.\<close>

lemma Semaphore_post_release:
  "holds s thread \<Longrightarrow>
   fst (Semaphore_post thread 0 errno s) = Inr ()
   \<and> map fst (snd (snd (Semaphore_post thread 0 errno s))) = [Sem_post]
   \<and> current_value (fst (snd (Semaphore_post thread 0 errno s))) = current_value s - 1
   \<and> \<not> holds (fst (snd (Semaphore_post thread 0 errno s))) thread"
  by (simp add: Semaphore_post_cases holds_def)

lemma Semaphore_post_not_held:
  "\<not> holds s thread \<Longrightarrow>
   fst (Semaphore_post thread ret errno s) = Inl (Logic_error POST_NOT_HELD)
   \<and> snd (snd (Semaphore_post thread ret errno s)) = []
   \<and> max_value (fst (snd (Semaphore_post thread ret errno s))) = max_value s
   \<and> current_value (fst (snd (Semaphore_post thread ret errno s))) = current_value s
   \<and> thread_queue (fst (snd (Semaphore_post thread ret errno s))) = thread_queue s
   \<and> holds (fst (snd (Semaphore_post thread ret errno s))) t = holds s t"
  by (simp add: Semaphore_post_cases looked_up_fields)

text \<open>
  Claim C1 on \<open>Semaphore::post\<close> of \<open>src/Semaphore.cpp\<close>. A semaphore of capacity 3 is
  constructed with its current value at 0, thread 1 acquires it, which brings the
  current value to 1, and releases it: the release of \<open>src/Semaphore.cpp\<close> brings the
  current value to 2 although no thread holds the semaphore, where the release of
  \<open>src/unnamed/part_008\<close> brings it back to 0.
\<close>

theorem Semaphore_post_alt_increments:
  "Semaphore_ctor_alt 3 0 0 0 =
     (Inr \<lparr>locking_threads = Map.empty, max_value = 3, current_value = 0, thread_queue = 0\<rparr>,
      [Sem_init 3])
   \<and> fst (snd (Semaphore_wait 1 0 0
       \<lparr>locking_threads = Map.empty, max_value = 3, current_value = 0, thread_queue = 0\<rparr>)) =
     \<lparr>locking_threads = [1 \<mapsto> True], max_value = 3, current_value = 1, thread_queue = 0\<rparr>
   \<and> Semaphore_post_alt 1 0 0
       \<lparr>locking_threads = [1 \<mapsto> True], max_value = 3, current_value = 1, thread_queue = 0\<rparr> =
     (Inr (),
      \<lparr>locking_threads = [1 \<mapsto> False], max_value = 3, current_value = 2, thread_queue = 0\<rparr>,
      [(Sem_post,
        \<lparr>locking_threads = [1 \<mapsto> True], max_value = 3, current_value = 1,
          thread_queue = 0\<rparr>)])
   \<and> Semaphore_post 1 0 0
       \<lparr>locking_threads = [1 \<mapsto> True], max_value = 3, current_value = 1, thread_queue = 0\<rparr> =
     (Inr (),
      \<lparr>locking_threads = [1 \<mapsto> False], max_value = 3, current_value = 0, thread_queue = 0\<rparr>,
      [(Sem_post,
        \<lparr>locking_threads = [1 \<mapsto> True], max_value = 3, current_value = 1,
          thread_queue = 0\<rparr>)])"
  by (simp add: Semaphore_ctor_alt_def sysexcept_def Semaphore_wait_cases Semaphore_post_cases
      Semaphore_post_alt_cases holds_def looked_up_def subscript_def acquired_def Let_def)

text \<open>
  Claim C2 on \<open>Semaphore::trywait\<close> (both copies). Thread 1 holds the only permit of a
  semaphore and thread 2 calls \<open>trywait\<close>: whatever the native call answers, the call
  issued is \<open>sem_wait\<close>, which suspends the caller until the permit is released, and not
  \<open>sem_trywait\<close>, which does not. When \<open>sem_wait\<close> then succeeds, \<open>trywait\<close> returns
  true; it returns false only when \<open>sem_wait\<close> fails with \<open>EAGAIN\<close>, the error of
  \<open>sem_trywait\<close>.
\<close>

theorem Semaphore_trywait_issues_sem_wait:
  "map fst (snd (snd (Semaphore_trywait 2 temp errno
       \<lparr>locking_threads = [1 \<mapsto> True], max_value = 1, current_value = 1,
         thread_queue = 0\<rparr>))) = [Sem_wait]
   \<and> suspends Sem_wait \<and> \<not> suspends Sem_trywait
   \<and> fst (Semaphore_trywait 2 0 0
       \<lparr>locking_threads = [1 \<mapsto> True], max_value = 1, current_value = 1,
         thread_queue = 0\<rparr>) = Inr True
   \<and> (fst (Semaphore_trywait 2 temp errno
       \<lparr>locking_threads = [1 \<mapsto> True], max_value = 1, current_value = 1,
         thread_queue = 0\<rparr>) = Inr False) = (temp \<noteq> 0 \<and> errno = EAGAIN)"
  by (simp add: Semaphore_trywait_cases holds_def Let_def)

section \<open>Mutex: the timed lock\<close>

lemma Mutex_double_lock:
  "locked m \<Longrightarrow> lock_thread m = self \<Longrightarrow>
   Mutex_lock self temp m = (Inl (Logic_error DOUBLE_LOCK), m, [])
   \<and> Mutex_trylock self temp m = (Inl (Logic_error DOUBLE_LOCK), m, [])
   \<and> Mutex_timedlock self time clk temp m = (Inl (Logic_error DOUBLE_LOCK), m, [])"
  by (simp add: Mutex_lock_def Mutex_trylock_def Mutex_timedlock_def)

lemma timedlock_body_cases:
  "timedlock_body self time clk temp m =
    (if tv_sec time < 0 \<or> tv_nsec time < 0 \<or> tv_nsec time \<ge> NSEC_PER_SEC
     then (Inl (Invalid_argument INVALID_TIMESPEC), m, [])
     else if gtod_ret clk \<noteq> 0
     then (Inl (System_error ''gettimeofday'' (gtod_errno clk)), m, [(Gettimeofday, m)])
     else
       let calls = [(Gettimeofday, m),
                    (Pthread_mutex_timedlock (add_timeout time (current_time clk)), m)]
       in if temp = ETIMEDOUT then (Inr False, m, calls)
          else if temp \<noteq> 0 then (Inl (System_error ''pthread_mutex_timedlock'' temp), m, calls)
          else (Inr True, m\<lparr>lock_thread := self, locked := True\<rparr>, calls))"
  by (simp add: timedlock_body_def pthread_timeout_cases stamp_def sysexcept_def Let_def
      ETIMEDOUT_def)

text \<open>\<open>Mutex::timedlock\<close> of \<open>src/unnamed/part_007\<close> does what the spec says of it: the owner
  gets the logic error of the double lock, as from \<open>lock\<close> and \<open>trylock\<close>; another
  thread, with a valid time span and a readable clock, gets false when the native call
  answers \<open>ETIMEDOUT\<close>, and true with itself recorded as the owner when it succeeds.\<close>

lemma Mutex_timedlock_other_thread:
  "\<not> (locked m \<and> lock_thread m = self) \<Longrightarrow>
   0 \<le> tv_sec time \<Longrightarrow> 0 \<le> tv_nsec time \<Longrightarrow> tv_nsec time < NSEC_PER_SEC \<Longrightarrow>
   gtod_ret clk = 0 \<Longrightarrow>
   fst (Mutex_timedlock self time clk ETIMEDOUT m) = Inr False
   \<and> fst (snd (Mutex_timedlock self time clk ETIMEDOUT m)) = m
   \<and> fst (Mutex_timedlock self time clk 0 m) = Inr True
   \<and> owner (fst (snd (Mutex_timedlock self time clk 0 m))) = Some self"
  by (simp add: Mutex_timedlock_def timedlock_body_cases Let_def owner_def ETIMEDOUT_def
      not_less not_le)

text \<open>
  Claim C3 on \<open>Mutex::timedlock\<close> of the copy of \<open>Mutex.cpp\<close> in \<open>src/Condition.cpp\<close>.
  Thread 7 owns the mutex and calls \<open>timedlock\<close> for one second at the time 100 s: this
  copy issues \<open>pthread_mutex_timedlock\<close> with the deadline 101 s and, when that expires,
  returns false, where \<open>timedlock\<close> of \<open>src/unnamed/part_007\<close>, \<open>lock\<close> and \<open>trylock\<close>
  throw the logic error of the double lock without a native call.
\<close>

theorem Mutex_timedlock_alt_double_lock:
  "Mutex_timedlock_alt 7 \<lparr>tv_sec = 1, tv_nsec = 0\<rparr>
     \<lparr>gtod_ret = 0, gtod_errno = 0, current_time = \<lparr>tvl_sec = 100, tv_usec = 0\<rparr>\<rparr>
     ETIMEDOUT \<lparr>lock_thread = 7, locked = True\<rparr> =
     (Inr False, \<lparr>lock_thread = 7, locked = True\<rparr>,
      [(Gettimeofday, \<lparr>lock_thread = 7, locked = True\<rparr>),
       (Pthread_mutex_timedlock \<lparr>tv_sec = 101, tv_nsec = 0\<rparr>,
        \<lparr>lock_thread = 7, locked = True\<rparr>)])
   \<and> Mutex_timedlock 7 \<lparr>tv_sec = 1, tv_nsec = 0\<rparr>
     \<lparr>gtod_ret = 0, gtod_errno = 0, current_time = \<lparr>tvl_sec = 100, tv_usec = 0\<rparr>\<rparr>
     ETIMEDOUT \<lparr>lock_thread = 7, locked = True\<rparr> =
     (Inl (Logic_error DOUBLE_LOCK), \<lparr>lock_thread = 7, locked = True\<rparr>, [])
   \<and> Mutex_lock 7 0 \<lparr>lock_thread = 7, locked = True\<rparr> =
     (Inl (Logic_error DOUBLE_LOCK), \<lparr>lock_thread = 7, locked = True\<rparr>, [])
   \<and> Mutex_trylock 7 0 \<lparr>lock_thread = 7, locked = True\<rparr> =
     (Inl (Logic_error DOUBLE_LOCK), \<lparr>lock_thread = 7, locked = True\<rparr>, [])"
  by (simp add: Mutex_timedlock_alt_def timedlock_body_cases Mutex_double_lock Let_def
      add_timeout_def NSEC_PER_SEC_def NSEC_PER_USEC_def)

section \<open>Runs over several calls\<close>

text \<open>A thread is constructed joinable, started as thread 5 and joined: the second
  \<open>join\<close> throws "not started". Detached instead, it cannot be joined.\<close>

lemma Thread_life_cycle:
  "Thread_ctor_detachstate 4096 JOINABLE 0 0 =
     Inr \<lparr>thread_id = 0, funcion = 4096, running = False, detachstate = JOINABLE,
          arguments = 0\<rparr>
   \<and> fst (snd (Thread_start 0 5
       \<lparr>thread_id = 0, funcion = 4096, running = False, detachstate = JOINABLE,
         arguments = 0\<rparr>)) =
     \<lparr>thread_id = 5, funcion = 4096, running = True, detachstate = JOINABLE, arguments = 0\<rparr>
   \<and> fst (snd (Thread_join None 0 0
       \<lparr>thread_id = 5, funcion = 4096, running = True, detachstate = JOINABLE,
         arguments = 0\<rparr>)) =
     \<lparr>thread_id = 5, funcion = 4096, running = False, detachstate = JOINABLE, arguments = 0\<rparr>
   \<and> fst (Thread_join None 0 0
       \<lparr>thread_id = 5, funcion = 4096, running = False, detachstate = JOINABLE,
         arguments = 0\<rparr>) =
     Inl (Logic_error JOIN_NOT_STARTED)
   \<and> fst (snd (Thread_detach 0
       \<lparr>thread_id = 5, funcion = 4096, running = True, detachstate = JOINABLE,
         arguments = 0\<rparr>)) =
     \<lparr>thread_id = 5, funcion = 4096, running = True, detachstate = DETACHED, arguments = 0\<rparr>
   \<and> fst (Thread_join None 0 0
       \<lparr>thread_id = 5, funcion = 4096, running = True, detachstate = DETACHED,
         arguments = 0\<rparr>) =
     Inl (Logic_error JOIN_DETACHED)"
  by (simp add: Thread_ctor_detachstate_def Thread_start_def Thread_detach_def Thread_join_def
      sysexcept_def)

text \<open>What \<open>trywait\<close> and \<open>timedwait\<close> do with the answers \<open>EAGAIN\<close> and \<open>ETIMEDOUT\<close>:
  they return false, and the maximum, the current value, the queue and the holders are
  what they were.\<close>

lemma Semaphore_trywait_contended:
  "\<not> holds s thread \<Longrightarrow> temp \<noteq> 0 \<Longrightarrow>
   fst (Semaphore_trywait thread temp EAGAIN s) = Inr False
   \<and> max_value (fst (snd (Semaphore_trywait thread temp EAGAIN s))) = max_value s
   \<and> current_value (fst (snd (Semaphore_trywait thread temp EAGAIN s))) = current_value s
   \<and> thread_queue (fst (snd (Semaphore_trywait thread temp EAGAIN s))) = thread_queue s
   \<and> holds (fst (snd (Semaphore_trywait thread temp EAGAIN s))) t = holds s t"
  by (simp add: Semaphore_trywait_cases Let_def looked_up_fields holds_def looked_up_def
      subscript_holds)

lemma Semaphore_timedwait_expired:
  "\<not> holds s thread \<Longrightarrow> temp \<noteq> 0 \<Longrightarrow>
   0 \<le> tv_sec time \<Longrightarrow> 0 \<le> tv_nsec time \<Longrightarrow> tv_nsec time < NSEC_PER_SEC \<Longrightarrow>
   gtod_ret clk = 0 \<Longrightarrow>
   fst (Semaphore_timedwait thread time clk temp ETIMEDOUT s) = Inr False
   \<and> max_value (fst (snd (Semaphore_timedwait thread time clk temp ETIMEDOUT s))) = max_value s
   \<and> current_value (fst (snd (Semaphore_timedwait thread time clk temp ETIMEDOUT s))) =
       current_value s
   \<and> thread_queue (fst (snd (Semaphore_timedwait thread time clk temp ETIMEDOUT s))) =
       thread_queue s
   \<and> holds (fst (snd (Semaphore_timedwait thread time clk temp ETIMEDOUT s))) t = holds s t"
  by (simp add: Semaphore_timedwait_cases Let_def looked_up_fields holds_def looked_up_def
      subscript_holds not_less not_le)

text \<open>An acquisition followed by the release of \<open>src/unnamed/part_008\<close> gives back the
  current value and the queue, and the thread holds the semaphore in between only.\<close>

lemma Semaphore_wait_post:
  assumes "\<not> holds s thread"
  shows "holds (fst (snd (Semaphore_wait thread 0 errno s))) thread
   \<and> current_value (fst (snd (Semaphore_wait thread 0 errno s))) = current_value s + 1
   \<and> current_value (fst (snd (Semaphore_post thread 0 errno2
         (fst (snd (Semaphore_wait thread 0 errno s)))))) = current_value s
   \<and> thread_queue (fst (snd (Semaphore_post thread 0 errno2
         (fst (snd (Semaphore_wait thread 0 errno s)))))) = thread_queue s
   \<and> \<not> holds (fst (snd (Semaphore_post thread 0 errno2
         (fst (snd (Semaphore_wait thread 0 errno s)))))) thread"
proof -
  let ?s1 = "fst (snd (Semaphore_wait thread 0 errno s))"
  from assms have s1: "?s1 = acquired thread ((looked_up thread s)\<lparr>thread_queue := thread_queue s + 1\<rparr>)"
    by (simp add: Semaphore_wait_cases Let_def)
  then have h: "holds ?s1 thread" and c: "current_value ?s1 = current_value s + 1"
    and q: "thread_queue ?s1 = thread_queue s"
    by (simp_all add: acquired_def holds_def looked_up_fields)
  from h have "fst (snd (Semaphore_post thread 0 errno2 ?s1)) =
      ?s1\<lparr>current_value := current_value ?s1 - 1,
          locking_threads := (locking_threads ?s1)(thread \<mapsto> False)\<rparr>"
    by (simp add: Semaphore_post_cases)
  with h c q show ?thesis by (simp add: holds_def)
qed

end
